theory Spec2Isabelle
  imports Complex_Main "HOL-Library.Multiset"
begin

section \<open>JavaScript values used by the route handlers\<close>

text \<open>
  Numbers are modelled as reals (prices, ratings, coordinates, distances) or as
  naturals and integers (identifiers, minutes, page numbers). Strings are character lists.
  A value that may be \<^verbatim>\<open>null\<close> or \<^verbatim>\<open>undefined\<close> is an option.
  The store is a pair of tables held as lists, in the order in which a query returns
  their rows; its queries do not fail, so the 500 answers of the handlers' outer
  \<^verbatim>\<open>catch\<close> blocks do not occur here.
\<close>

text \<open>\<^verbatim>\<open>Number.prototype.toString()\<close> on a non-negative integer: its decimal digits.\<close>

definition digitChar :: "nat \<Rightarrow> char" where
  "digitChar n = ''0123456789'' ! n"

function toString :: "nat \<Rightarrow> string" where
  "toString n = (if n < 10 then [digitChar n] else toString (n div 10) @ [digitChar (n mod 10)])"
  by pat_completeness auto
termination
  by (relation "measure (\<lambda>n. n)") auto

declare toString.simps [simp del]

text \<open>\<^verbatim>\<open>s.padStart(2, '0')\<close>.\<close>

definition padStart2 :: "string \<Rightarrow> string" where
  "padStart2 s = replicate (2 - length s) CHR ''0'' @ s"

text \<open>The value of a decimal digit character, if it is one.\<close>

definition digitVal :: "char \<Rightarrow> nat option" where
  "digitVal c = (if c \<in> set ''0123456789'' then Some (of_char c - 48) else None)"

text \<open>
  The time of day of a string in the format the booking route validates,
  \<^verbatim>\<open>/^([0-1]?[0-9]|2[0-3]):[0-5][0-9]$/\<close>, as (hour, minute); \<open>None\<close> when the
  string does not match.
\<close>

definition hourOf :: "string \<Rightarrow> nat option" where
  "hourOf hs =
     (case hs of
        [a] \<Rightarrow> digitVal a
      | [a, b] \<Rightarrow>
          (case (digitVal a, digitVal b) of
             (Some x, Some y) \<Rightarrow>
               if x \<le> 1 \<or> (x = 2 \<and> y \<le> 3) then Some (10 * x + y) else None
           | _ \<Rightarrow> None)
      | _ \<Rightarrow> None)"

definition minuteOf :: "string \<Rightarrow> nat option" where
  "minuteOf ms =
     (case ms of
        [a, b] \<Rightarrow>
          (case (digitVal a, digitVal b) of
             (Some x, Some y) \<Rightarrow> if x \<le> 5 then Some (10 * x + y) else None
           | _ \<Rightarrow> None)
      | _ \<Rightarrow> None)"

definition parseTime :: "string \<Rightarrow> (nat \<times> nat) option" where
  "parseTime s =
     (let hs = takeWhile (\<lambda>c. c \<noteq> CHR '':'') s;
          rest = dropWhile (\<lambda>c. c \<noteq> CHR '':'') s
      in case rest of
           [] \<Rightarrow> None
         | _ # ms \<Rightarrow>
             (case (hourOf hs, minuteOf ms) of
                (Some h, Some m) \<Rightarrow> Some (h, m)
              | _ \<Rightarrow> None))"

text \<open>
  A stored date is the number of its day (the day that begins at that UTC midnight).
  \<open>instantOf\<close> is the instant, in minutes, of a wall-clock time on a day; a string that is
  not a time of day gives an invalid moment (\<open>None\<close>). \<^verbatim>\<open>add(n, 'minutes')\<close> moves a valid
  moment by \<open>n\<close> minutes, and \<^verbatim>\<open>isBefore\<close> and \<^verbatim>\<open>isAfter\<close> are false as soon as one side
  is invalid. Daylight-saving shifts are not modelled.
\<close>

type_synonym date = int
type_synonym moment = "int option"

definition instantOf :: "date \<Rightarrow> string \<Rightarrow> moment" where
  "instantOf day time =
     (case parseTime time of
        None \<Rightarrow> None
      | Some (h, m) \<Rightarrow> Some (day * 1440 + int h * 60 + int m))"

text \<open>
  The date of a query is the string the client sent. Two of the forms that
  \<^verbatim>\<open>isISO8601\<close> admits are modelled: the calendar date \<^verbatim>\<open>YYYY-MM-DD\<close>, and the date with
  a time of day that \<^verbatim>\<open>Date.prototype.toISOString\<close> writes, \<^verbatim>\<open>YYYY-MM-DDThh:mm:ss.sssZ\<close>.
  The validator's other forms (week and ordinal dates, the basic format, zone offsets)
  are left out and count as invalid here.
\<close>

primrec numberOf :: "nat \<Rightarrow> string \<Rightarrow> nat option" where
  "numberOf acc [] = Some acc"
| "numberOf acc (c # cs) =
     (case digitVal c of None \<Rightarrow> None | Some v \<Rightarrow> numberOf (10 * acc + v) cs)"

definition calendarDateOf :: "string \<Rightarrow> (nat \<times> nat \<times> nat) option" where
  "calendarDateOf s =
     (if length s = 10 \<and> s ! 4 = CHR ''-'' \<and> s ! 7 = CHR ''-'' then
        (case (numberOf 0 (take 4 s), numberOf 0 (take 2 (drop 5 s)), numberOf 0 (drop 8 s)) of
           (Some y, Some m, Some d) \<Rightarrow>
             if 1 \<le> m \<and> m \<le> 12 \<and> 1 \<le> d \<and> d \<le> 31 then Some (y, m, d) else None
         | _ \<Rightarrow> None)
      else None)"

text \<open>The time of day of the date-time form, in milliseconds after midnight.\<close>

definition timeOfDayOf :: "string \<Rightarrow> nat option" where
  "timeOfDayOf t =
     (if length t = 14 \<and> t ! 0 = CHR ''T'' \<and> t ! 3 = CHR '':'' \<and> t ! 6 = CHR '':''
         \<and> t ! 9 = CHR ''.'' \<and> t ! 13 = CHR ''Z'' then
        (case (numberOf 0 (take 2 (drop 1 t)), numberOf 0 (take 2 (drop 4 t)),
               numberOf 0 (take 2 (drop 7 t)), numberOf 0 (take 3 (drop 10 t))) of
           (Some h, Some m, Some sec, Some ms) \<Rightarrow>
             if h \<le> 23 \<and> m \<le> 59 \<and> sec \<le> 59
             then Some (((h * 60 + m) * 60 + sec) * 1000 + ms) else None
         | _ \<Rightarrow> None)
      else None)"

definition dateTimeOf :: "string \<Rightarrow> ((nat \<times> nat \<times> nat) \<times> nat) option" where
  "dateTimeOf s =
     (case (calendarDateOf (take 10 s), timeOfDayOf (drop 10 s)) of
        (Some ymd, Some ms) \<Rightarrow> Some (ymd, ms)
      | _ \<Rightarrow> None)"

definition isISO8601 :: "string \<Rightarrow> bool" where
  "isISO8601 s =
     (case (calendarDateOf s, dateTimeOf s) of
        (None, None) \<Rightarrow> False
      | _ \<Rightarrow> True)"

text \<open>The number of the day of a calendar date, counted from 1970-01-01.\<close>

definition daysFromCivil :: "nat \<times> nat \<times> nat \<Rightarrow> int" where
  "daysFromCivil ymd =
     (case ymd of
        (y, m, d) \<Rightarrow>
          let y' = (if m \<le> 2 then int y - 1 else int y);
              era = y' div 400;
              yoe = y' mod 400;
              mp = (int m + 9) mod 12;
              doy = (153 * mp + 2) div 5 + int d - 1;
              doe = yoe * 365 + yoe div 4 - yoe div 100 + doy
          in era * 146097 + doe - 719468)"

text \<open>
  \<^verbatim>\<open>new Date(date)\<close> as a stored date: a calendar date is the UTC midnight of its day,
  and so is the date-time form at \<^verbatim>\<open>T00:00:00.000Z\<close>; at any other time of day it is
  an instant that no stored date equals (\<open>None\<close>).
\<close>

definition newDate :: "string \<Rightarrow> date option" where
  "newDate s =
     (case calendarDateOf s of
        Some ymd \<Rightarrow> Some (daysFromCivil ymd)
      | None \<Rightarrow>
          (case dateTimeOf s of
             Some (ymd, ms) \<Rightarrow> if ms = 0 then Some (daysFromCivil ymd) else None
           | None \<Rightarrow> None))"

text \<open>
  \<^verbatim>\<open>moment(`${date} ${time}`)\<close>: the string is a date and a time when \<open>date\<close> is a
  calendar date and \<open>time\<close> a time of day. After the date-time form, which already ends
  its own time of day with \<^verbatim>\<open>Z\<close>, the appended time makes a string that is no date, and
  the moment is invalid.
\<close>

definition moment :: "string \<Rightarrow> string \<Rightarrow> moment" where
  "moment date time =
     (case calendarDateOf date of
        None \<Rightarrow> None
      | Some ymd \<Rightarrow> instantOf (daysFromCivil ymd) time)"

definition addMinutes :: "moment \<Rightarrow> int \<Rightarrow> moment" where
  "addMinutes t n = map_option (\<lambda>x. x + n) t"

definition isBefore :: "moment \<Rightarrow> moment \<Rightarrow> bool" where
  "isBefore a b = (case (a, b) of (Some x, Some y) \<Rightarrow> x < y | _ \<Rightarrow> False)"

definition isAfter :: "moment \<Rightarrow> moment \<Rightarrow> bool" where
  "isAfter a b = (case (a, b) of (Some x, Some y) \<Rightarrow> x > y | _ \<Rightarrow> False)"

section \<open>Data model\<close>

record user =
  u_id :: nat
  u_name :: string
  u_latitude :: "real option"
  u_longitude :: "real option"

record provider =
  p_id :: nat
  p_userId :: nat
  p_isAvailable :: bool
  p_averageRating :: real
  p_user :: user

record service =
  s_id :: nat
  s_name :: string
  s_categoryName :: string
  s_basePrice :: real
  s_duration :: int
  s_isActive :: bool
  s_createdAt :: int
  s_provider :: provider

text \<open>
  A booking row with the relations the handlers include (customer, provider). The status
  is the string the handlers compare and store.
\<close>

record booking =
  b_id :: nat
  b_bookingId :: string
  b_customerId :: nat
  b_serviceId :: nat
  b_providerId :: nat
  b_scheduledDate :: date
  b_scheduledTime :: string
  b_duration :: int
  b_totalPrice :: real
  b_status :: string
  b_notes :: "string option"
  b_cancellationReason :: "string option"
  b_customer :: user
  b_provider :: provider

text \<open>An event sent to a room of the realtime server.\<close>

record event =
  e_room :: string
  e_name :: string
  e_type :: string
  e_booking :: booking
  e_message :: string

text \<open>
  The state the handlers read and write: the service and booking tables, the key the
  store gives the next booking, the realtime server handle of \<^verbatim>\<open>lib/socket.js\<close>
  (\<open>None\<close> until \<^verbatim>\<open>initializeSocket\<close> has run) with the events emitted through it, and
  the console log.
\<close>

record state =
  serviceTable :: "service list"
  bookingTable :: "booking list"
  nextBookingKey :: nat
  io :: "event list option"
  console :: "string list"

datatype 'a response =
    Json nat 'a
  | Error nat string
  | ValidationErrors nat "string list"

section \<open>GET /bookings/availability/:serviceId\<close>

record slot =
  sl_time :: string
  sl_available :: bool

record availability_request =
  ar_serviceId :: int
  ar_date :: string

text \<open>\<^verbatim>\<open>param('serviceId').isInt({ min: 1 })\<close> and \<^verbatim>\<open>query('date').isISO8601()\<close>.\<close>

definition validateAvailability :: "availability_request \<Rightarrow> string list" where
  "validateAvailability req =
     (if ar_serviceId req \<ge> 1 then [] else [''serviceId''])
     @ (if isISO8601 (ar_date req) then [] else [''date''])"

text \<open>The callback of \<^verbatim>\<open>existingBookings.some\<close>.\<close>

definition slotConflicts :: "string \<Rightarrow> service \<Rightarrow> string \<Rightarrow> booking \<Rightarrow> bool" where
  "slotConflicts date service time booking =
     (let bookingStart = moment date (b_scheduledTime booking);
          bookingEnd = addMinutes bookingStart (b_duration booking);
          slotStart = moment date time;
          slotEnd = addMinutes slotStart (s_duration service)
      in isBefore slotStart bookingEnd \<and> isAfter slotEnd bookingStart)"

definition slotTime :: "nat \<Rightarrow> nat \<Rightarrow> string" where
  "slotTime hour minute = padStart2 (toString hour) @ '':'' @ padStart2 (toString minute)"

text \<open>The inner loop, \<^verbatim>\<open>for (let minute = 0; minute < 60; minute += 30)\<close>.\<close>

function minuteLoop ::
  "string \<Rightarrow> service \<Rightarrow> booking list \<Rightarrow> nat \<Rightarrow> nat \<Rightarrow> slot list \<Rightarrow> slot list" where
  "minuteLoop date service existingBookings hour minute timeSlots =
     (if minute < 60 then
        let time = slotTime hour minute;
            isAvailable = \<not> list_ex (slotConflicts date service time) existingBookings
        in minuteLoop date service existingBookings hour (minute + 30)
             (if isAvailable then timeSlots @ [\<lparr>sl_time = time, sl_available = True\<rparr>]
              else timeSlots)
      else timeSlots)"
  by pat_completeness auto
termination
  by (relation "measure (\<lambda>(date, service, existingBookings, hour, minute, timeSlots). 60 - minute)")
     auto

declare minuteLoop.simps [simp del]

text \<open>The outer loop, \<^verbatim>\<open>for (let hour = 9; hour < 18; hour++)\<close>.\<close>

function hourLoop ::
  "string \<Rightarrow> service \<Rightarrow> booking list \<Rightarrow> nat \<Rightarrow> slot list \<Rightarrow> slot list" where
  "hourLoop date service existingBookings hour timeSlots =
     (if hour < 18 then
        hourLoop date service existingBookings (hour + 1)
          (minuteLoop date service existingBookings hour 0 timeSlots)
      else timeSlots)"
  by pat_completeness auto
termination
  by (relation "measure (\<lambda>(date, service, existingBookings, hour, timeSlots). 18 - hour)") auto

declare hourLoop.simps [simp del]

definition existingBookingsOf :: "state \<Rightarrow> service \<Rightarrow> string \<Rightarrow> booking list" where
  "existingBookingsOf st service date =
     filter (\<lambda>b. b_providerId b = p_id (s_provider service)
                \<and> Some (b_scheduledDate b) = newDate date
                \<and> b_status b \<in> set [''CONFIRMED'', ''IN_PROGRESS''])
       (bookingTable st)"

definition findActiveService :: "state \<Rightarrow> int \<Rightarrow> service option" where
  "findActiveService st serviceId =
     find (\<lambda>s. int (s_id s) = serviceId \<and> s_isActive s) (serviceTable st)"

definition getAvailability :: "state \<Rightarrow> availability_request \<Rightarrow> slot list response" where
  "getAvailability st req =
     (let errors = validateAvailability req in
      if errors \<noteq> [] then ValidationErrors 400 errors
      else case findActiveService st (ar_serviceId req) of
             None \<Rightarrow> Error 404 ''Service not found''
           | Some service \<Rightarrow>
               Json 200 (hourLoop (ar_date req) service
                           (existingBookingsOf st service (ar_date req)) 9 []))"

section \<open>The realtime server handle (lib/socket.js)\<close>

text \<open>\<^verbatim>\<open>getIO\<close> throws when the server was never initialised; the error message is returned.\<close>

definition getIO :: "state \<Rightarrow> string + event list" where
  "getIO st =
     (case io st of
        None \<Rightarrow> Inl ''Socket.io not initialized''
      | Some server \<Rightarrow> Inr server)"

text \<open>
  The \<^verbatim>\<open>try { getIO().to(room).emit(...) } catch (socketError) { console.log(...) }\<close>
  block of the booking handlers.
\<close>

definition notify :: "state \<Rightarrow> event \<Rightarrow> state" where
  "notify st ev =
     (case getIO st of
        Inl message \<Rightarrow> st\<lparr>console := console st @ [''Socket notification failed: '' @ message]\<rparr>
      | Inr server \<Rightarrow> st\<lparr>io := Some (server @ [ev])\<rparr>)"

section \<open>POST /bookings\<close>

record create_request =
  cr_serviceId :: int
  cr_scheduledDate :: date
  cr_scheduledTime :: string
  cr_notes :: "string option"

text \<open>
  The validators of the route: \<^verbatim>\<open>serviceId\<close> an integer of at least 1 and
  \<^verbatim>\<open>scheduledTime\<close> matching the time format. The result lists the fields in error.
\<close>

definition validateCreate :: "create_request \<Rightarrow> string list" where
  "validateCreate req =
     (if cr_serviceId req \<ge> 1 then [] else [''serviceId''])
     @ (if parseTime (cr_scheduledTime req) \<noteq> None then [] else [''scheduledTime''])"

text \<open>
  The store's \<^verbatim>\<open>lte\<close> on strings, taken as the lexicographic order of the character
  codes.
\<close>

fun str_le :: "string \<Rightarrow> string \<Rightarrow> bool" where
  "str_le [] ys = True"
| "str_le (x # xs) [] = False"
| "str_le (x # xs) (y # ys) =
     (if x = y then str_le xs ys else (of_char x :: nat) < of_char y)"

definition isSpace :: "char \<Rightarrow> bool" where
  "isSpace c = (c \<in> set [CHR '' '', CHR 0x09, CHR 0x0A, CHR 0x0B, CHR 0x0C, CHR 0x0D])"

definition trim :: "string \<Rightarrow> string" where
  "trim s = rev (dropWhile isSpace (rev (dropWhile isSpace s)))"

text \<open>\<^verbatim>\<open>notes || null\<close> after the \<^verbatim>\<open>trim\<close> sanitizer.\<close>

definition notesOrNull :: "string option \<Rightarrow> string option" where
  "notesOrNull notes =
     (case notes of
        None \<Rightarrow> None
      | Some n \<Rightarrow> if trim n = [] then None else Some (trim n))"

text \<open>
  Modelled from the spec: the schema that gives a new booking its status is not among the
  sources; the spec says a booking is created PENDING (and without a cancellation reason).
\<close>

definition defaultStatus :: string where
  "defaultStatus = ''PENDING''"

definition conflictingBookingsOf :: "state \<Rightarrow> service \<Rightarrow> create_request \<Rightarrow> booking list" where
  "conflictingBookingsOf st service req =
     filter (\<lambda>b. b_providerId b = p_id (s_provider service)
                \<and> b_scheduledDate b = cr_scheduledDate req
                \<and> b_status b \<in> set [''PENDING'', ''CONFIRMED'', ''IN_PROGRESS'']
                \<and> str_le (b_scheduledTime b) (cr_scheduledTime req))
       (bookingTable st)"

text \<open>
  The handler, for the authenticated user \<open>customer\<close> and the identifier \<open>uuid\<close> that
  \<^verbatim>\<open>uuidv4()\<close> returns. The result is the response and the state after the request.
\<close>

definition createBooking ::
  "state \<Rightarrow> user \<Rightarrow> string \<Rightarrow> create_request \<Rightarrow> (string \<times> booking) response \<times> state" where
  "createBooking st customer uuid req =
     (let errors = validateCreate req in
      if errors \<noteq> [] then (ValidationErrors 400 errors, st)
      else case findActiveService st (cr_serviceId req) of
             None \<Rightarrow> (Error 404 ''Service not found'', st)
           | Some service \<Rightarrow>
               if \<not> p_isAvailable (s_provider service)
               then (Error 400 ''Provider is currently unavailable'', st)
               else if length (conflictingBookingsOf st service req) > 0
               then (Error 400 ''Time slot is not available'', st)
               else
                 let booking =
                       \<lparr>b_id = nextBookingKey st,
                        b_bookingId = uuid,
                        b_customerId = u_id customer,
                        b_serviceId = s_id service,
                        b_providerId = p_id (s_provider service),
                        b_scheduledDate = cr_scheduledDate req,
                        b_scheduledTime = cr_scheduledTime req,
                        b_duration = s_duration service,
                        b_totalPrice = s_basePrice service,
                        b_status = defaultStatus,
                        b_notes = notesOrNull (cr_notes req),
                        b_cancellationReason = None,
                        b_customer = customer,
                        b_provider = s_provider service\<rparr>;
                     st1 = st\<lparr>bookingTable := bookingTable st @ [booking],
                              nextBookingKey := nextBookingKey st + 1\<rparr>;
                     st2 = notify st1
                             \<lparr>e_room = ''user_'' @ toString (p_userId (s_provider service)),
                              e_name = ''new_booking'',
                              e_type = ''NEW_BOOKING'',
                              e_booking = booking,
                              e_message = ''New booking request from '' @ u_name (b_customer booking)\<rparr>
                 in (Json 201 (''Booking created successfully'', booking), st2))"

section \<open>PATCH /bookings/:bookingId/status\<close>

text \<open>
  A value of the JSON body. A field of the body is such a value, or is not there (\<open>None\<close>,
  which JavaScript reads as \<^verbatim>\<open>undefined\<close>).
\<close>

datatype json = JsonNull | JsonString string | JsonNumber real | JsonBool bool

record status_request =
  sr_bookingId :: string
  sr_status :: string
  sr_cancellationReason :: "json option"

text \<open>
  \<^verbatim>\<open>isUUID\<close> of the validation library: five groups of 8, 4, 4, 4 and 12 hexadecimal
  digits separated by hyphens.
\<close>

definition isHexDigit :: "char \<Rightarrow> bool" where
  "isHexDigit c = (c \<in> set ''0123456789abcdefABCDEF'')"

fun matchGroups :: "nat list \<Rightarrow> string \<Rightarrow> bool" where
  "matchGroups [] s = False"
| "matchGroups [n] s = (length s = n \<and> list_all isHexDigit s)"
| "matchGroups (n # ns) s =
     (length (take n s) = n \<and> list_all isHexDigit (take n s)
      \<and> (case drop n s of
            [] \<Rightarrow> False
          | c # rest \<Rightarrow> c = CHR ''-'' \<and> matchGroups ns rest))"

definition isUUID :: "string \<Rightarrow> bool" where
  "isUUID s = matchGroups [8, 4, 4, 4, 12] s"

text \<open>
  The three validators of the route; \<^verbatim>\<open>optional().isString()\<close> lets a field pass that is
  not there or is a string, and no other.
\<close>

definition validateStatus :: "status_request \<Rightarrow> string list" where
  "validateStatus req =
     (if isUUID (sr_bookingId req) then [] else [''bookingId''])
     @ (if sr_status req \<in> set [''CONFIRMED'', ''IN_PROGRESS'', ''COMPLETED'', ''CANCELLED'']
        then [] else [''status''])
     @ (case sr_cancellationReason req of
          None \<Rightarrow> []
        | Some (JsonString reason) \<Rightarrow> []
        | Some _ \<Rightarrow> [''cancellationReason''])"

text \<open>
  The \<^verbatim>\<open>data\<close> of the update. A field whose value is \<^verbatim>\<open>undefined\<close> (no
  \<^verbatim>\<open>cancellationReason\<close> in the body) is left as it is by the store; \<^verbatim>\<open>null\<close> clears it.
  A reason that is neither a string nor absent does not pass validation.
\<close>

definition statusUpdate :: "status_request \<Rightarrow> booking \<Rightarrow> booking" where
  "statusUpdate req b =
     b\<lparr>b_status := sr_status req,
       b_cancellationReason :=
         (if sr_status req = ''CANCELLED''
          then (case sr_cancellationReason req of
                  None \<Rightarrow> b_cancellationReason b
                | Some (JsonString reason) \<Rightarrow> Some reason
                | Some _ \<Rightarrow> None)
          else None)\<rparr>"

definition toLowerChar :: "char \<Rightarrow> char" where
  "toLowerChar c =
     (case map_of (zip ''ABCDEFGHIJKLMNOPQRSTUVWXYZ'' ''abcdefghijklmnopqrstuvwxyz'') c of
        None \<Rightarrow> c
      | Some l \<Rightarrow> l)"

definition toLowerCase :: "string \<Rightarrow> string" where
  "toLowerCase s = map toLowerChar s"

definition findOwnedBooking :: "state \<Rightarrow> string \<Rightarrow> nat \<Rightarrow> booking option" where
  "findOwnedBooking st bookingId userId =
     find (\<lambda>b. b_bookingId b = bookingId \<and> p_userId (b_provider b) = userId) (bookingTable st)"

definition updateBookingStatus ::
  "state \<Rightarrow> user \<Rightarrow> status_request \<Rightarrow> (string \<times> booking) response \<times> state" where
  "updateBookingStatus st usr req =
     (let errors = validateStatus req in
      if errors \<noteq> [] then (ValidationErrors 400 errors, st)
      else case findOwnedBooking st (sr_bookingId req) (u_id usr) of
             None \<Rightarrow> (Error 404 ''Booking not found'', st)
           | Some booking \<Rightarrow>
               let updatedBooking = statusUpdate req booking;
                   st1 = st\<lparr>bookingTable :=
                              map (\<lambda>b. if b_id b = b_id booking then statusUpdate req b else b)
                                (bookingTable st)\<rparr>;
                   st2 = notify st1
                           \<lparr>e_room = ''user_'' @ toString (u_id (b_customer booking)),
                            e_name = ''booking_update'',
                            e_type = ''BOOKING_STATUS_UPDATED'',
                            e_booking = updatedBooking,
                            e_message = ''Your booking has been '' @ toLowerCase (sr_status req)\<rparr>
               in (Json 200 (''Booking status updated successfully'', updatedBooking), st2))"

section \<open>GET /services\<close>

text \<open>
  The Haversine distance, over the reals. \<^verbatim>\<open>Math.atan2\<close> is the angle of the point
  \<open>(x, y)\<close>.
\<close>

definition atan2 :: "real \<Rightarrow> real \<Rightarrow> real" where
  "atan2 y x =
     (if x > 0 then arctan (y / x)
      else if x < 0 \<and> y \<ge> 0 then arctan (y / x) + pi
      else if x < 0 then arctan (y / x) - pi
      else if y > 0 then pi / 2
      else if y < 0 then - pi / 2
      else 0)"

definition calculateDistance :: "real \<Rightarrow> real \<Rightarrow> real \<Rightarrow> real \<Rightarrow> real" where
  "calculateDistance lat1 lon1 lat2 lon2 =
     (let R = 6371;
          dLat = (lat2 - lat1) * pi / 180;
          dLon = (lon2 - lon1) * pi / 180;
          a = sin (dLat / 2) * sin (dLat / 2)
              + cos (lat1 * pi / 180) * cos (lat2 * pi / 180)
                * sin (dLon / 2) * sin (dLon / 2);
          c = 2 * atan2 (sqrt a) (sqrt (1 - a))
      in R * c)"

text \<open>
  The query of a search. A parameter of the query string is present (\<open>Some\<close>) or absent;
  a parameter that passed its validator is a non-empty string, which JavaScript takes as
  true whatever number it denotes, so \<^verbatim>\<open>if (latitude && longitude)\<close> asks for presence.
  The numbers are the values \<^verbatim>\<open>parseFloat\<close> and \<^verbatim>\<open>parseInt\<close> read.
\<close>

record search_request =
  q_category :: "string option"
  q_minRating :: "real option"
  q_maxDistance :: "real option"
  q_minPrice :: "real option"
  q_maxPrice :: "real option"
  q_latitude :: "real option"
  q_longitude :: "real option"
  q_sortBy :: "string option"
  q_page :: "int option"
  q_limit :: "int option"

definition checkField :: "string \<Rightarrow> 'a option \<Rightarrow> ('a \<Rightarrow> bool) \<Rightarrow> string list" where
  "checkField name v ok = (case v of None \<Rightarrow> [] | Some x \<Rightarrow> if ok x then [] else [name])"

definition validateSearch :: "search_request \<Rightarrow> string list" where
  "validateSearch q =
     checkField ''minRating'' (q_minRating q) (\<lambda>r. 0 \<le> r \<and> r \<le> 5)
     @ checkField ''maxDistance'' (q_maxDistance q) (\<lambda>d. 0 \<le> d)
     @ checkField ''minPrice'' (q_minPrice q) (\<lambda>p. 0 \<le> p)
     @ checkField ''maxPrice'' (q_maxPrice q) (\<lambda>p. 0 \<le> p)
     @ checkField ''sortBy'' (q_sortBy q)
         (\<lambda>k. k \<in> set [''price'', ''rating'', ''distance'', ''newest''])
     @ checkField ''page'' (q_page q) (\<lambda>n. 1 \<le> n)
     @ checkField ''limit'' (q_limit q) (\<lambda>n. 1 \<le> n \<and> n \<le> 50)"

text \<open>The store's \<^verbatim>\<open>contains\<close> with \<^verbatim>\<open>mode: 'insensitive'\<close>, on ASCII letters.\<close>

definition containsInsensitive :: "string \<Rightarrow> string \<Rightarrow> bool" where
  "containsInsensitive s c =
     list_ex (\<lambda>i. take (length c) (drop i (toLowerCase s)) = toLowerCase c)
       [0 ..< Suc (length s)]"

text \<open>The where clause the handler builds.\<close>

definition matchesWhere :: "search_request \<Rightarrow> service \<Rightarrow> bool" where
  "matchesWhere q s =
     (s_isActive s
      \<and> p_isAvailable (s_provider s)
      \<and> p_averageRating (s_provider s) \<ge> (case q_minRating q of None \<Rightarrow> 0 | Some r \<Rightarrow> r)
      \<and> (case q_category q of
            None \<Rightarrow> True
          | Some c \<Rightarrow> c = [] \<or> containsInsensitive (s_categoryName s) c)
      \<and> (case q_minPrice q of None \<Rightarrow> True | Some p \<Rightarrow> s_basePrice s \<ge> p)
      \<and> (case q_maxPrice q of None \<Rightarrow> True | Some p \<Rightarrow> s_basePrice s \<le> p))"

text \<open>A stored coordinate is taken as given when it is neither \<^verbatim>\<open>null\<close> nor 0.\<close>

definition truthy :: "real option \<Rightarrow> bool" where
  "truthy v = (case v of None \<Rightarrow> False | Some x \<Rightarrow> x \<noteq> 0)"

text \<open>The callback of the distance filter.\<close>

definition withinDistance :: "real \<Rightarrow> real \<Rightarrow> real \<Rightarrow> service \<Rightarrow> bool" where
  "withinDistance latitude longitude maxDistance s =
     (let providerLat = u_latitude (p_user (s_provider s));
          providerLon = u_longitude (p_user (s_provider s))
      in if \<not> truthy providerLat \<or> \<not> truthy providerLon then False
         else calculateDistance latitude longitude (the providerLat) (the providerLon)
              \<le> maxDistance)"

text \<open>The \<^verbatim>\<open>distance\<close> property of a returned service: not set, \<^verbatim>\<open>null\<close>, or a number.\<close>

datatype js_value = Undefined | Null | Number real

record listed_service =
  ls_service :: service
  ls_distance :: js_value

definition attachDistance :: "real \<Rightarrow> real \<Rightarrow> service \<Rightarrow> listed_service" where
  "attachDistance latitude longitude s =
     (let providerLat = u_latitude (p_user (s_provider s));
          providerLon = u_longitude (p_user (s_provider s));
          distance = (if truthy providerLat \<and> truthy providerLon
                      then Number (calculateDistance latitude longitude
                                     (the providerLat) (the providerLon))
                      else Null)
      in \<lparr>ls_service = s, ls_distance = distance\<rparr>)"

text \<open>
  What a comparator returns: a number, an infinity, or \<^verbatim>\<open>NaN\<close> (the difference of two
  infinities).
\<close>

datatype js_num = Num real | PosInfinity | NegInfinity | NaN

fun js_minus :: "js_num \<Rightarrow> js_num \<Rightarrow> js_num" where
  "js_minus (Num a) (Num b) = Num (a - b)"
| "js_minus NaN y = NaN"
| "js_minus x NaN = NaN"
| "js_minus PosInfinity PosInfinity = NaN"
| "js_minus NegInfinity NegInfinity = NaN"
| "js_minus PosInfinity y = PosInfinity"
| "js_minus NegInfinity y = NegInfinity"
| "js_minus (Num a) PosInfinity = NegInfinity"
| "js_minus (Num a) NegInfinity = PosInfinity"

text \<open>\<^verbatim>\<open>x.distance || Infinity\<close>.\<close>

definition distanceOrInfinity :: "js_value \<Rightarrow> js_num" where
  "distanceOrInfinity d =
     (case d of
        Number x \<Rightarrow> if x \<noteq> 0 then Num x else PosInfinity
      | _ \<Rightarrow> PosInfinity)"

text \<open>
  \<^verbatim>\<open>Array.prototype.sort\<close> with a comparator: a stable sort, where \<open>a\<close> goes after \<open>b\<close>
  only when the comparator's value is greater than 0 (\<^verbatim>\<open>NaN\<close> counts as 0). For the
  comparators of this handler the outcome is the stable insertion sort.
\<close>

definition isPositive :: "js_num \<Rightarrow> bool" where
  "isPositive v = (case v of Num x \<Rightarrow> x > 0 | PosInfinity \<Rightarrow> True | _ \<Rightarrow> False)"

fun insertBy :: "('a \<Rightarrow> 'a \<Rightarrow> js_num) \<Rightarrow> 'a \<Rightarrow> 'a list \<Rightarrow> 'a list" where
  "insertBy cmp x [] = [x]"
| "insertBy cmp x (y # ys) =
     (if isPositive (cmp x y) then y # insertBy cmp x ys else x # y # ys)"

definition sortBy :: "('a \<Rightarrow> 'a \<Rightarrow> js_num) \<Rightarrow> 'a list \<Rightarrow> 'a list" where
  "sortBy cmp xs = foldr (insertBy cmp) xs []"

definition byPrice :: "listed_service \<Rightarrow> listed_service \<Rightarrow> js_num" where
  "byPrice a b = js_minus (Num (s_basePrice (ls_service a))) (Num (s_basePrice (ls_service b)))"

definition byRating :: "listed_service \<Rightarrow> listed_service \<Rightarrow> js_num" where
  "byRating a b =
     js_minus (Num (p_averageRating (s_provider (ls_service b))))
              (Num (p_averageRating (s_provider (ls_service a))))"

definition byDistance :: "listed_service \<Rightarrow> listed_service \<Rightarrow> js_num" where
  "byDistance a b =
     js_minus (distanceOrInfinity (ls_distance a)) (distanceOrInfinity (ls_distance b))"

definition byNewest :: "listed_service \<Rightarrow> listed_service \<Rightarrow> js_num" where
  "byNewest a b =
     js_minus (Num (of_int (s_createdAt (ls_service b))))
              (Num (of_int (s_createdAt (ls_service a))))"

record pagination =
  currentPage :: int
  totalPages :: int
  totalCount :: nat
  hasNext :: bool
  hasPrev :: bool

record search_result =
  res_services :: "listed_service list"
  res_pagination :: pagination

text \<open>The rows \<^verbatim>\<open>findMany\<close> returns: the rows matching the where clause, after \<^verbatim>\<open>skip\<close> and \<^verbatim>\<open>take\<close>.\<close>

definition findManyServices :: "state \<Rightarrow> search_request \<Rightarrow> int \<Rightarrow> int \<Rightarrow> service list" where
  "findManyServices st q skip tk =
     take (nat tk) (drop (nat skip) (filter (matchesWhere q) (serviceTable st)))"

definition countServices :: "state \<Rightarrow> search_request \<Rightarrow> nat" where
  "countServices st q = length (filter (matchesWhere q) (serviceTable st))"

definition searchServices :: "state \<Rightarrow> search_request \<Rightarrow> search_result response" where
  "searchServices st q =
     (let errors = validateSearch q in
      if errors \<noteq> [] then ValidationErrors 400 errors
      else
        let page = (case q_page q of None \<Rightarrow> 1 | Some n \<Rightarrow> n);
            limit = (case q_limit q of None \<Rightarrow> 20 | Some n \<Rightarrow> n);
            sortKey = (case q_sortBy q of None \<Rightarrow> ''newest'' | Some k \<Rightarrow> k);
            skip = (page - 1) * limit;
            tk = limit;
            found = findManyServices st q skip tk;
            filtered =
              (case (q_latitude q, q_longitude q, q_maxDistance q) of
                 (Some latitude, Some longitude, Some maxDistance) \<Rightarrow>
                   filter (withinDistance latitude longitude maxDistance) found
               | _ \<Rightarrow> found);
            listed =
              (case (q_latitude q, q_longitude q) of
                 (Some latitude, Some longitude) \<Rightarrow>
                   map (attachDistance latitude longitude) filtered
               | _ \<Rightarrow> map (\<lambda>s. \<lparr>ls_service = s, ls_distance = Undefined\<rparr>) filtered);
            sorted =
              (if sortKey = ''price'' then sortBy byPrice listed
               else if sortKey = ''rating'' then sortBy byRating listed
               else if sortKey = ''distance'' then
                 (case (q_latitude q, q_longitude q) of
                    (Some latitude, Some longitude) \<Rightarrow> sortBy byDistance listed
                  | _ \<Rightarrow> listed)
               else sortBy byNewest listed);
            total = countServices st q
        in Json 200
             \<lparr>res_services = sorted,
              res_pagination =
                \<lparr>currentPage = page,
                 totalPages = \<lceil>real total / real_of_int tk\<rceil>,
                 totalCount = total,
                 hasNext = (skip + tk < int total),
                 hasPrev = (page > 1)\<rparr>\<rparr>)"

section \<open>The intended invariant on bookings\<close>

text \<open>
  Two bookings conflict when both are active (PENDING, CONFIRMED or IN_PROGRESS), have the
  same provider and date, and their intervals from \<open>scheduledTime\<close> for \<open>duration\<close> minutes
  overlap.
\<close>

definition isActiveBooking :: "booking \<Rightarrow> bool" where
  "isActiveBooking b = (b_status b \<in> set [''PENDING'', ''CONFIRMED'', ''IN_PROGRESS''])"

definition intervalsOverlap :: "booking \<Rightarrow> booking \<Rightarrow> bool" where
  "intervalsOverlap b c =
     (let bStart = instantOf (b_scheduledDate b) (b_scheduledTime b);
          cStart = instantOf (b_scheduledDate c) (b_scheduledTime c)
      in isBefore bStart (addMinutes cStart (b_duration c))
         \<and> isAfter (addMinutes bStart (b_duration b)) cStart)"

definition bookingsConflict :: "booking \<Rightarrow> booking \<Rightarrow> bool" where
  "bookingsConflict b c =
     (isActiveBooking b \<and> isActiveBooking c
      \<and> b_providerId b = b_providerId c
      \<and> b_scheduledDate b = b_scheduledDate c
      \<and> intervalsOverlap b c)"

fun conflictFree :: "booking list \<Rightarrow> bool" where
  "conflictFree [] = True"
| "conflictFree (b # bs) = (\<not> list_ex (bookingsConflict b) bs \<and> conflictFree bs)"

definition noOverlap :: "state \<Rightarrow> bool" where
  "noOverlap st = conflictFree (bookingTable st)"

section \<open>Example data\<close>

definition exampleCustomer :: user where
  "exampleCustomer = \<lparr>u_id = 1, u_name = ''Alice'', u_latitude = None, u_longitude = None\<rparr>"

definition exampleProviderUser :: user where
  "exampleProviderUser =
     \<lparr>u_id = 2, u_name = ''Bob'', u_latitude = Some 90, u_longitude = Some 20\<rparr>"

definition exampleProvider :: provider where
  "exampleProvider =
     \<lparr>p_id = 1, p_userId = 2, p_isAvailable = True, p_averageRating = 4,
      p_user = exampleProviderUser\<rparr>"

definition exampleService :: service where
  "exampleService =
     \<lparr>s_id = 1, s_name = ''Haircut'', s_categoryName = ''Beauty'', s_basePrice = 50,
      s_duration = 60, s_isActive = True, s_createdAt = 0, s_provider = exampleProvider\<rparr>"

definition exampleUuid :: string where
  "exampleUuid = ''123e4567-e89b-42d3-a456-426614174000''"

text \<open>A confirmed booking of the example service at 10:00 on day 0.\<close>

definition exampleBooking :: booking where
  "exampleBooking =
     \<lparr>b_id = 1, b_bookingId = exampleUuid, b_customerId = 1, b_serviceId = 1,
      b_providerId = 1, b_scheduledDate = 0, b_scheduledTime = ''10:00'', b_duration = 60,
      b_totalPrice = 50, b_status = ''CONFIRMED'', b_notes = None,
      b_cancellationReason = None, b_customer = exampleCustomer,
      b_provider = exampleProvider\<rparr>"

text \<open>Day 0 as a query date: as a calendar date, and as the date-time of its UTC midnight.\<close>

definition calendarDay :: string where
  "calendarDay = ''1970-01-01''"

definition midnightOfDay :: string where
  "midnightOfDay = ''1970-01-01T00:00:00.000Z''"

text \<open>A request for the example service at 10:00 on day 0, and one at 09:30.\<close>

definition exampleRequest :: create_request where
  "exampleRequest =
     \<lparr>cr_serviceId = 1, cr_scheduledDate = 0, cr_scheduledTime = ''10:00'', cr_notes = None\<rparr>"

definition earlierRequest :: create_request where
  "earlierRequest = exampleRequest\<lparr>cr_scheduledTime := ''09:30''\<rparr>"

definition secondUuid :: string where
  "secondUuid = ''9b2f7c1e-3a4d-4e5f-8a6b-0c1d2e3f4a5b''"

text \<open>The example service with no booking, and no realtime server started.\<close>

definition emptyState :: state where
  "emptyState =
     \<lparr>serviceTable = [exampleService], bookingTable = [], nextBookingKey = 1, io = None,
      console = []\<rparr>"

definition bookedState :: state where
  "bookedState = emptyState\<lparr>bookingTable := [exampleBooking], nextBookingKey := 2\<rparr>"

text \<open>
  The bookings that the two requests create, one after the other, from the empty state.
\<close>

definition firstBooking :: booking where
  "firstBooking =
     \<lparr>b_id = 1, b_bookingId = exampleUuid, b_customerId = 1, b_serviceId = 1,
      b_providerId = 1, b_scheduledDate = 0, b_scheduledTime = ''10:00'', b_duration = 60,
      b_totalPrice = 50, b_status = ''PENDING'', b_notes = None,
      b_cancellationReason = None, b_customer = exampleCustomer,
      b_provider = exampleProvider\<rparr>"

definition afterFirst :: state where
  "afterFirst =
     emptyState\<lparr>bookingTable := [firstBooking], nextBookingKey := 2,
       console := [''Socket notification failed: Socket.io not initialized'']\<rparr>"

definition secondBooking :: booking where
  "secondBooking =
     firstBooking\<lparr>b_id := 2, b_bookingId := secondUuid, b_scheduledTime := ''09:30''\<rparr>"

definition afterSecond :: state where
  "afterSecond =
     emptyState\<lparr>bookingTable := [firstBooking, secondBooking], nextBookingKey := 3,
       console := [''Socket notification failed: Socket.io not initialized'',
                   ''Socket notification failed: Socket.io not initialized'']\<rparr>"

text \<open>Status requests for the example booking.\<close>

definition cancelRequest :: status_request where
  "cancelRequest =
     \<lparr>sr_bookingId = exampleUuid, sr_status = ''CANCELLED'',
      sr_cancellationReason = Some (JsonString ''Provider is ill'')\<rparr>"


definition nullReasonRequest :: status_request where
  "nullReasonRequest =
     \<lparr>sr_bookingId = exampleUuid, sr_status = ''CANCELLED'',
      sr_cancellationReason = Some JsonNull\<rparr>"

definition pendingRequest :: status_request where
  "pendingRequest =
     \<lparr>sr_bookingId = exampleUuid, sr_status = ''PENDING'', sr_cancellationReason = None\<rparr>"

text \<open>
  Two more services: one whose provider is at latitude -90, and one whose provider's
  stored latitude is 0.
\<close>

definition farService :: service where
  "farService =
     \<lparr>s_id = 2, s_name = ''Massage'', s_categoryName = ''Beauty'', s_basePrice = 80,
      s_duration = 30, s_isActive = True, s_createdAt = 1,
      s_provider =
        \<lparr>p_id = 2, p_userId = 3, p_isAvailable = True, p_averageRating = 5,
         p_user = \<lparr>u_id = 3, u_name = ''Carol'', u_latitude = Some (- 90),
                   u_longitude = Some 20\<rparr>\<rparr>\<rparr>"

definition equatorService :: service where
  "equatorService =
     \<lparr>s_id = 3, s_name = ''Manicure'', s_categoryName = ''Beauty'', s_basePrice = 30,
      s_duration = 30, s_isActive = True, s_createdAt = 2,
      s_provider =
        \<lparr>p_id = 3, p_userId = 4, p_isAvailable = True, p_averageRating = 3,
         p_user = \<lparr>u_id = 4, u_name = ''Dave'', u_latitude = Some 0,
                   u_longitude = Some 20\<rparr>\<rparr>\<rparr>"

definition equatorState :: state where
  "equatorState = emptyState\<lparr>serviceTable := [exampleService, equatorService]\<rparr>"

definition farState :: state where
  "farState = emptyState\<lparr>serviceTable := [exampleService, farService]\<rparr>"

text \<open>
  Searches from latitude 90, longitude 20 (where the example provider is): with no
  other parameter, within 100 km, and sorted by distance.
\<close>

definition locatedQuery :: search_request where
  "locatedQuery =
     \<lparr>q_category = None, q_minRating = None, q_maxDistance = None, q_minPrice = None,
      q_maxPrice = None, q_latitude = Some 90, q_longitude = Some 20, q_sortBy = None,
      q_page = None, q_limit = None\<rparr>"

definition nearbyQuery :: search_request where
  "nearbyQuery = locatedQuery\<lparr>q_maxDistance := Some 100\<rparr>"

definition byDistanceQuery :: search_request where
  "byDistanceQuery = locatedQuery\<lparr>q_sortBy := Some ''distance''\<rparr>"

section \<open>Availability: the slots returned\<close>

lemma grid_cases: "9 \<le> h \<Longrightarrow> h < 18 \<Longrightarrow> h = 9 \<or> h = 10 \<or> h = 11 \<or> h = 12 \<or> h = 13 \<or> h = 14 \<or> h = 15 \<or> h = 16 \<or> h = (17::nat)"
  by arith

lemma instantOf_slotTime:
  assumes "9 \<le> h" "h < 18" "m = 0 \<or> m = 30"
  shows "instantOf d (slotTime h m) = Some (d * 1440 + int h * 60 + int m)"
proof -
  from grid_cases [OF assms(1,2)] assms(3) show ?thesis
    by (elim disjE)
       (simp_all add: slotTime_def padStart2_def toString.simps digitChar_def
          instantOf_def parseTime_def hourOf_def minuteOf_def digitVal_def)
qed

lemma moment_calendar:
  "calendarDateOf date = Some ymd \<Longrightarrow> moment date time = instantOf (daysFromCivil ymd) time"
  by (simp add: moment_def)

lemma moment_invalid: "calendarDateOf date = None \<Longrightarrow> moment date time = None"
  by (simp add: moment_def)

lemma minuteLoop_inv:
  assumes "\<forall>s \<in> set acc. Q s"
    and "\<And>m. m < 60 \<Longrightarrow> m mod 30 = 0 \<Longrightarrow> \<not> list_ex (slotConflicts d svc (slotTime hour m)) ex \<Longrightarrow> Q \<lparr>sl_time = slotTime hour m, sl_available = True\<rparr>"
    and "minute mod 30 = 0"
  shows "\<forall>s \<in> set (minuteLoop d svc ex hour minute acc). Q s"
  using assms
proof (induction d svc ex hour minute acc rule: minuteLoop.induct)
  case (1 date service existingBookings hour minute timeSlots)
  show ?case
  proof (cases "minute < 60")
    case False
    then show ?thesis using "1.prems"(1) by (simp add: minuteLoop.simps)
  next
    case True
    let ?time = "slotTime hour minute"
    let ?av = "\<not> list_ex (slotConflicts date service ?time) existingBookings"
    let ?acc = "if ?av then timeSlots @ [\<lparr>sl_time = ?time, sl_available = True\<rparr>] else timeSlots"
    have acc: "\<forall>s \<in> set ?acc. Q s"
      using "1.prems"(1) "1.prems"(2) [OF True "1.prems"(3)] by auto
    have step: "(minute + 30) mod 30 = 0" using "1.prems"(3) by simp
    have "\<forall>s \<in> set (minuteLoop date service existingBookings hour (minute + 30) ?acc). Q s"
      by (rule "1.IH" [OF True refl refl acc "1.prems"(2) step])
    then show ?thesis using True
      by (subst minuteLoop.simps) (simp add: Let_def)
  qed
qed

lemma hourLoop_inv:
  assumes "\<forall>s \<in> set acc. Q s"
    and "\<And>h m. hour \<le> h \<Longrightarrow> h < 18 \<Longrightarrow> m < 60 \<Longrightarrow> m mod 30 = 0 \<Longrightarrow> \<not> list_ex (slotConflicts d svc (slotTime h m)) ex \<Longrightarrow> Q \<lparr>sl_time = slotTime h m, sl_available = True\<rparr>"
  shows "\<forall>s \<in> set (hourLoop d svc ex hour acc). Q s"
  using assms
proof (induction d svc ex hour acc rule: hourLoop.induct)
  case (1 date service existingBookings hour timeSlots)
  show ?case
  proof (cases "hour < 18")
    case False
    then show ?thesis using "1.prems"(1) by (simp add: hourLoop.simps)
  next
    case True
    have inner: "\<forall>s \<in> set (minuteLoop date service existingBookings hour 0 timeSlots). Q s"
      by (rule minuteLoop_inv [OF "1.prems"(1)]) (use "1.prems"(2) True in auto)
    have "\<forall>s \<in> set (hourLoop date service existingBookings (hour + 1)
                      (minuteLoop date service existingBookings hour 0 timeSlots)). Q s"
      by (rule "1.IH" [OF True inner]) (use "1.prems"(2) in auto)
    then show ?thesis using True
      by (subst hourLoop.simps) simp
  qed
qed

lemma slotTimes:
  "slotTime 9 0 = ''09:00''" "slotTime 9 30 = ''09:30''"
  "slotTime 10 0 = ''10:00''" "slotTime 10 30 = ''10:30''"
  "slotTime 11 0 = ''11:00''" "slotTime 11 30 = ''11:30''"
  "slotTime 12 0 = ''12:00''" "slotTime 12 30 = ''12:30''"
  "slotTime 13 0 = ''13:00''" "slotTime 13 30 = ''13:30''"
  "slotTime 14 0 = ''14:00''" "slotTime 14 30 = ''14:30''"
  "slotTime 15 0 = ''15:00''" "slotTime 15 30 = ''15:30''"
  "slotTime 16 0 = ''16:00''" "slotTime 16 30 = ''16:30''"
  "slotTime 17 0 = ''17:00''" "slotTime 17 30 = ''17:30''"
  by (simp_all add: slotTime_def padStart2_def toString.simps digitChar_def)

subsection \<open>A query whose date is a calendar date\<close>

text \<open>
  When the date of the query is a calendar date, no slot returned overlaps a booking the
  query of the handler selects.
\<close>

lemma calendar_date_never_overlaps:
  assumes "getAvailability st req = Json 200 timeSlots"
    and "calendarDateOf (ar_date req) = Some ymd"
    and "findActiveService st (ar_serviceId req) = Some service"
    and "sl \<in> set timeSlots"
    and "b \<in> set (bookingTable st)"
    and "b_providerId b = p_id (s_provider service)"
    and "Some (b_scheduledDate b) = newDate (ar_date req)"
    and "b_status b = ''CONFIRMED'' \<or> b_status b = ''IN_PROGRESS''"
    and "moment (ar_date req) (b_scheduledTime b) = Some bookingStart"
  shows "\<exists>slotStart. moment (ar_date req) (sl_time sl) = Some slotStart
           \<and> \<not> (slotStart < bookingStart + b_duration b
                \<and> slotStart + s_duration service > bookingStart)"
proof -
  let ?d = "ar_date req"
  let ?day = "daysFromCivil ymd"
  let ?ex = "existingBookingsOf st service ?d"
  let ?Q = "\<lambda>s. (\<exists>h m. 9 \<le> h \<and> h < 18 \<and> (m = 0 \<or> m = 30) \<and> sl_time s = slotTime h m)
                \<and> \<not> list_ex (slotConflicts ?d service (sl_time s)) ?ex"
  have out: "timeSlots = hourLoop ?d service ?ex 9 []"
    using assms(1,3) by (simp add: getAvailability_def Let_def split: if_splits)
  have "\<forall>s \<in> set (hourLoop ?d service ?ex 9 []). ?Q s"
  proof (rule hourLoop_inv)
    show "\<forall>s \<in> set []. ?Q s" by simp
  next
    fix h m :: nat
    assume "9 \<le> h" "h < 18" "m < 60" "m mod 30 = 0"
      and free: "\<not> list_ex (slotConflicts ?d service (slotTime h m)) ?ex"
    then have "m = 0 \<or> m = 30" by presburger
    with \<open>9 \<le> h\<close> \<open>h < 18\<close> free
    show "?Q \<lparr>sl_time = slotTime h m, sl_available = True\<rparr>" by auto
  qed
  with assms(4) out have q: "?Q sl" by blast
  then obtain h m where hm: "9 \<le> h" "h < 18" "m = 0 \<or> m = 30" "sl_time sl = slotTime h m"
    by blast
  have start: "moment ?d (sl_time sl) = Some (?day * 1440 + int h * 60 + int m)"
    using instantOf_slotTime [OF hm(1,2,3)] hm(4) by (simp add: moment_calendar [OF assms(2)])
  have "b \<in> set ?ex"
    using assms(5,6,7,8) by (auto simp: existingBookingsOf_def)
  with q have "\<not> slotConflicts ?d service (sl_time sl) b"
    by (auto simp: list_ex_iff)
  then have "\<not> (?day * 1440 + int h * 60 + int m < bookingStart + b_duration b
               \<and> ?day * 1440 + int h * 60 + int m + s_duration service > bookingStart)"
    by (simp add: slotConflicts_def Let_def start assms(9) addMinutes_def isBefore_def
        isAfter_def)
  with start show ?thesis by blast
qed

lemma conflict_one:
  assumes "calendarDateOf date = Some ymd"
    "b_scheduledTime b = ''10:00''" "b_duration b = 60" "s_duration svc = 60"
    "9 \<le> h" "h < 18" "m = 0 \<or> m = 30"
  shows "slotConflicts date svc (slotTime h m) b \<longleftrightarrow> (540 < h * 60 + m \<and> h * 60 + m < 660)"
proof -
  have b: "moment date (b_scheduledTime b) = Some (daysFromCivil ymd * 1440 + 600)"
    using assms(2)
    by (simp add: moment_calendar [OF assms(1)] instantOf_def parseTime_def hourOf_def
        minuteOf_def digitVal_def)
  have s: "moment date (slotTime h m) = Some (daysFromCivil ymd * 1440 + int h * 60 + int m)"
    by (simp add: moment_calendar [OF assms(1)] instantOf_slotTime [OF assms(5,6,7)])
  show ?thesis
    using assms(3,4)
    by (simp add: slotConflicts_def b s addMinutes_def isBefore_def isAfter_def Let_def)
       linarith
qed

lemma loop_example:
  assumes "calendarDateOf date = Some ymd"
    "b_scheduledTime b = ''10:00''" "b_duration b = 60" "s_duration svc = 60"
  shows "hourLoop date svc [b] 9 [] =
     map (\<lambda>t. \<lparr>sl_time = t, sl_available = True\<rparr>)
       [''09:00'', ''11:00'', ''11:30'', ''12:00'', ''12:30'', ''13:00'', ''13:30'', ''14:00'',
        ''14:30'', ''15:00'', ''15:30'', ''16:00'', ''16:30'', ''17:00'', ''17:30'']"
  apply (simp add: hourLoop.simps minuteLoop.simps conflict_one [OF assms] Let_def)
  apply (simp add: slotTimes)
  done

lemma example_dates:
  "calendarDateOf calendarDay = Some (1970, 1, 1)"
  "calendarDateOf midnightOfDay = None"
  "dateTimeOf midnightOfDay = Some ((1970, 1, 1), 0)"
  by (simp_all add: calendarDateOf_def dateTimeOf_def timeOfDayOf_def calendarDay_def
      midnightOfDay_def digitVal_def)

lemma example_newDate: "newDate calendarDay = Some 0" "newDate midnightOfDay = Some 0"
  by (simp_all add: newDate_def example_dates daysFromCivil_def)

lemma example_iso: "isISO8601 calendarDay" "isISO8601 midnightOfDay"
  by (simp_all add: isISO8601_def example_dates)

lemma existing_booked:
  "existingBookingsOf bookedState exampleService calendarDay = [exampleBooking]"
  "existingBookingsOf bookedState exampleService midnightOfDay = [exampleBooking]"
  by (simp_all add: existingBookingsOf_def example_newDate bookedState_def emptyState_def
      exampleBooking_def exampleService_def exampleProvider_def)

lemma find_example:
  "findActiveService bookedState 1 = Some exampleService"
  by (simp add: findActiveService_def bookedState_def emptyState_def exampleService_def)

text \<open>
  For the calendar date of day 0, with the example booking at 10:00 for 60 minutes, the
  slots returned are 09:00 and those from 11:00 on.
\<close>

lemma availability_calendar_day:
  "getAvailability bookedState \<lparr>ar_serviceId = 1, ar_date = calendarDay\<rparr> =
     Json 200 (map (\<lambda>t. \<lparr>sl_time = t, sl_available = True\<rparr>)
       [''09:00'', ''11:00'', ''11:30'', ''12:00'', ''12:30'', ''13:00'', ''13:30'', ''14:00'',
        ''14:30'', ''15:00'', ''15:30'', ''16:00'', ''16:30'', ''17:00'', ''17:30''])"
proof -
  have "hourLoop calendarDay exampleService [exampleBooking] 9 [] =
     map (\<lambda>t. \<lparr>sl_time = t, sl_available = True\<rparr>)
       [''09:00'', ''11:00'', ''11:30'', ''12:00'', ''12:30'', ''13:00'', ''13:30'', ''14:00'',
        ''14:30'', ''15:00'', ''15:30'', ''16:00'', ''16:30'', ''17:00'', ''17:30'']"
    by (rule loop_example [OF example_dates(1)])
       (simp_all add: exampleBooking_def exampleService_def)
  then show ?thesis
    by (simp add: getAvailability_def validateAvailability_def example_iso find_example
        existing_booked)
qed

subsection \<open>A query whose date has a time of day\<close>

lemma never_conflicts_when_invalid:
  "calendarDateOf date = None \<Longrightarrow> list_ex (slotConflicts date svc time) ex = False"
  by (simp add: list_ex_iff slotConflicts_def moment_invalid addMinutes_def isBefore_def
      isAfter_def)

lemma loop_all_slots:
  assumes "calendarDateOf date = None"
  shows "hourLoop date svc ex 9 [] =
     map (\<lambda>t. \<lparr>sl_time = t, sl_available = True\<rparr>)
       [''09:00'', ''09:30'', ''10:00'', ''10:30'', ''11:00'', ''11:30'', ''12:00'', ''12:30'',
        ''13:00'', ''13:30'', ''14:00'', ''14:30'', ''15:00'', ''15:30'', ''16:00'', ''16:30'',
        ''17:00'', ''17:30'']"
  apply (simp add: hourLoop.simps minuteLoop.simps never_conflicts_when_invalid [OF assms]
      Let_def)
  apply (simp add: slotTimes)
  done

lemma availability_midnight:
  "getAvailability bookedState \<lparr>ar_serviceId = 1, ar_date = midnightOfDay\<rparr> =
     Json 200 (map (\<lambda>t. \<lparr>sl_time = t, sl_available = True\<rparr>)
       [''09:00'', ''09:30'', ''10:00'', ''10:30'', ''11:00'', ''11:30'', ''12:00'', ''12:30'',
        ''13:00'', ''13:30'', ''14:00'', ''14:30'', ''15:00'', ''15:30'', ''16:00'', ''16:30'',
        ''17:00'', ''17:30''])"
  by (simp add: getAvailability_def validateAvailability_def example_iso find_example
      loop_all_slots [OF example_dates(2)])

lemma instant_examples:
  "instantOf 0 ''10:00'' = Some 600" "instantOf 0 ''09:30'' = Some 570"
  by (simp_all add: instantOf_def parseTime_def hourOf_def minuteOf_def digitVal_def)

text \<open>
  Claim C1. No slot the availability endpoint returns overlaps a CONFIRMED or IN_PROGRESS
  booking of the provider on the date. The handler does not keep this for a date with a
  time of day: the query \<^verbatim>\<open>date=1970-01-01T00:00:00.000Z\<close> passes the validator and
  selects the confirmed booking of that day at 10:00 for 60 minutes, every moment built
  from the date is invalid, and all 18 slots of the grid are returned, among them 10:00,
  whose interval from minute 600 of the day for the service's 60 minutes overlaps the
  booking's.
\<close>

theorem availability_overlap_on_datetime:
  "isISO8601 midnightOfDay
   \<and> findActiveService bookedState 1 = Some exampleService
   \<and> exampleBooking \<in> set (bookingTable bookedState)
   \<and> b_providerId exampleBooking = p_id (s_provider exampleService)
   \<and> newDate midnightOfDay = Some (b_scheduledDate exampleBooking)
   \<and> b_status exampleBooking = ''CONFIRMED''
   \<and> getAvailability bookedState \<lparr>ar_serviceId = 1, ar_date = midnightOfDay\<rparr> =
       Json 200 (map (\<lambda>t. \<lparr>sl_time = t, sl_available = True\<rparr>)
         [''09:00'', ''09:30'', ''10:00'', ''10:30'', ''11:00'', ''11:30'', ''12:00'',
          ''12:30'', ''13:00'', ''13:30'', ''14:00'', ''14:30'', ''15:00'', ''15:30'',
          ''16:00'', ''16:30'', ''17:00'', ''17:30''])
   \<and> instantOf (b_scheduledDate exampleBooking) ''10:00'' = Some 600
   \<and> instantOf (b_scheduledDate exampleBooking) (b_scheduledTime exampleBooking) = Some 600
   \<and> (600::int) < 600 + b_duration exampleBooking
   \<and> 600 + s_duration exampleService > (600::int)"
proof -
  have "exampleBooking \<in> set (bookingTable bookedState)"
    by (simp add: bookedState_def)
  moreover have "b_providerId exampleBooking = p_id (s_provider exampleService)"
    by (simp add: exampleBooking_def exampleService_def exampleProvider_def)
  moreover have "b_scheduledDate exampleBooking = 0" "b_status exampleBooking = ''CONFIRMED''"
    "b_scheduledTime exampleBooking = ''10:00''" "b_duration exampleBooking = 60"
    by (simp_all add: exampleBooking_def)
  moreover have "s_duration exampleService = 60" by (simp add: exampleService_def)
  ultimately show ?thesis
    using example_iso(2) find_example example_newDate(2) availability_midnight
      instant_examples(1)
    by simp
qed

text \<open>
  Claim C5. With a service of duration 60 and a single CONFIRMED booking at 10:00 for 60
  minutes on the queried date, the endpoint must list 09:00 and 11:00 and must not list
  10:00 or 10:30. The handler does not keep this when the date of the query has a time
  of day: for \<^verbatim>\<open>date=1970-01-01T00:00:00.000Z\<close> and that single booking, 10:00 and 10:30
  are among the slots returned.
\<close>

theorem availability_example_on_datetime:
  "s_duration exampleService = 60
   \<and> bookingTable bookedState = [exampleBooking]
   \<and> b_providerId exampleBooking = p_id (s_provider exampleService)
   \<and> newDate midnightOfDay = Some (b_scheduledDate exampleBooking)
   \<and> b_status exampleBooking = ''CONFIRMED''
   \<and> b_scheduledTime exampleBooking = ''10:00''
   \<and> b_duration exampleBooking = 60
   \<and> (\<exists>timeSlots.
         getAvailability bookedState \<lparr>ar_serviceId = 1, ar_date = midnightOfDay\<rparr>
           = Json 200 timeSlots
         \<and> ''10:00'' \<in> set (map sl_time timeSlots)
         \<and> ''10:30'' \<in> set (map sl_time timeSlots))"
proof -
  have "bookingTable bookedState = [exampleBooking]"
    by (simp add: bookedState_def)
  moreover have "b_providerId exampleBooking = p_id (s_provider exampleService)"
    by (simp add: exampleBooking_def exampleService_def exampleProvider_def)
  moreover have "b_scheduledDate exampleBooking = 0" "b_status exampleBooking = ''CONFIRMED''"
    "b_scheduledTime exampleBooking = ''10:00''" "b_duration exampleBooking = 60"
    by (simp_all add: exampleBooking_def)
  moreover have "s_duration exampleService = 60" by (simp add: exampleService_def)
  ultimately show ?thesis
    using example_newDate(2) availability_midnight by simp
qed

section \<open>Booking creation\<close>

lemma str_le_refl: "str_le s s"
  by (induction s) auto

lemma createBooking_cases:
  assumes "validateCreate req = []"
    and "findActiveService st (cr_serviceId req) = Some service"
    and "p_isAvailable (s_provider service)"
  shows "createBooking st customer uuid req =
     (if conflictingBookingsOf st service req \<noteq> []
      then (Error 400 ''Time slot is not available'', st)
      else
        let booking =
              \<lparr>b_id = nextBookingKey st, b_bookingId = uuid, b_customerId = u_id customer,
               b_serviceId = s_id service, b_providerId = p_id (s_provider service),
               b_scheduledDate = cr_scheduledDate req, b_scheduledTime = cr_scheduledTime req,
               b_duration = s_duration service, b_totalPrice = s_basePrice service,
               b_status = defaultStatus, b_notes = notesOrNull (cr_notes req),
               b_cancellationReason = None, b_customer = customer,
               b_provider = s_provider service\<rparr>
        in (Json 201 (''Booking created successfully'', booking),
            notify (st\<lparr>bookingTable := bookingTable st @ [booking],
                        nextBookingKey := nextBookingKey st + 1\<rparr>)
              \<lparr>e_room = ''user_'' @ toString (p_userId (s_provider service)),
               e_name = ''new_booking'', e_type = ''NEW_BOOKING'', e_booking = booking,
               e_message = ''New booking request from '' @ u_name customer\<rparr>))"
  using assms by (simp add: createBooking_def Let_def)

lemma notify_tables:
  "bookingTable (notify st ev) = bookingTable st"
  "serviceTable (notify st ev) = serviceTable st"
  "nextBookingKey (notify st ev) = nextBookingKey st"
  by (simp_all add: notify_def getIO_def split: option.splits)

lemma conflicting_iff:
  "conflictingBookingsOf st service req \<noteq> [] \<longleftrightarrow>
     (\<exists>b \<in> set (bookingTable st).
        b_providerId b = p_id (s_provider service)
        \<and> b_scheduledDate b = cr_scheduledDate req
        \<and> (b_status b = ''PENDING'' \<or> b_status b = ''CONFIRMED'' \<or> b_status b = ''IN_PROGRESS'')
        \<and> str_le (b_scheduledTime b) (cr_scheduledTime req))"
  by (auto simp: conflictingBookingsOf_def filter_empty_conv)

text \<open>
  Claim C3. A valid POST /bookings request that names an existing active service whose
  provider is available is answered 400 "Time slot is not available" exactly when some
  booking of the same provider and date with status PENDING, CONFIRMED or IN_PROGRESS has
  a \<open>scheduledTime\<close> that is at most the requested one as a string. On that answer the
  state is unchanged, so nothing is persisted; and once a booking has been created, a
  further valid request for the same provider, date and time is rejected in this way.
\<close>

theorem conflict_rejection:
  assumes "validateCreate req = []"
    and "findActiveService st (cr_serviceId req) = Some service"
    and "p_isAvailable (s_provider service)"
  shows "(fst (createBooking st customer uuid req) = Error 400 ''Time slot is not available''
          \<longleftrightarrow> (\<exists>b \<in> set (bookingTable st).
                 b_providerId b = p_id (s_provider service)
                 \<and> b_scheduledDate b = cr_scheduledDate req
                 \<and> (b_status b = ''PENDING'' \<or> b_status b = ''CONFIRMED''
                      \<or> b_status b = ''IN_PROGRESS'')
                 \<and> str_le (b_scheduledTime b) (cr_scheduledTime req)))
       \<and> (fst (createBooking st customer uuid req) = Error 400 ''Time slot is not available''
          \<longrightarrow> snd (createBooking st customer uuid req) = st)
       \<and> (\<forall>created st' req' service' customer' uuid'.
            createBooking st customer uuid req = (Json 201 created, st')
            \<and> validateCreate req' = []
            \<and> findActiveService st' (cr_serviceId req') = Some service'
            \<and> p_isAvailable (s_provider service')
            \<and> p_id (s_provider service') = p_id (s_provider service)
            \<and> cr_scheduledDate req' = cr_scheduledDate req
            \<and> cr_scheduledTime req' = cr_scheduledTime req
            \<longrightarrow> createBooking st' customer' uuid' req'
                  = (Error 400 ''Time slot is not available'', st'))"
proof (intro conjI allI impI)
  show "fst (createBooking st customer uuid req) = Error 400 ''Time slot is not available''
          \<longleftrightarrow> (\<exists>b \<in> set (bookingTable st).
                 b_providerId b = p_id (s_provider service)
                 \<and> b_scheduledDate b = cr_scheduledDate req
                 \<and> (b_status b = ''PENDING'' \<or> b_status b = ''CONFIRMED''
                      \<or> b_status b = ''IN_PROGRESS'')
                 \<and> str_le (b_scheduledTime b) (cr_scheduledTime req))"
    unfolding conflicting_iff [symmetric]
    by (simp add: createBooking_cases [OF assms] Let_def)
next
  assume "fst (createBooking st customer uuid req) = Error 400 ''Time slot is not available''"
  then show "snd (createBooking st customer uuid req) = st"
    by (simp add: createBooking_cases [OF assms] Let_def split: if_splits)
next
  fix created st' req' service' customer' uuid'
  assume a: "createBooking st customer uuid req = (Json 201 created, st')
            \<and> validateCreate req' = []
            \<and> findActiveService st' (cr_serviceId req') = Some service'
            \<and> p_isAvailable (s_provider service')
            \<and> p_id (s_provider service') = p_id (s_provider service)
            \<and> cr_scheduledDate req' = cr_scheduledDate req
            \<and> cr_scheduledTime req' = cr_scheduledTime req"
  let ?booking = "snd created"
  from a have tbl: "bookingTable st' = bookingTable st @ [?booking]"
    and fields: "b_providerId ?booking = p_id (s_provider service)"
      "b_scheduledDate ?booking = cr_scheduledDate req"
      "b_scheduledTime ?booking = cr_scheduledTime req"
      "b_status ?booking = ''PENDING''"
    by (auto simp: createBooking_cases [OF assms] Let_def notify_tables defaultStatus_def
        split: if_splits)
  have "?booking \<in> set (conflictingBookingsOf st' service' req')"
    using a tbl fields by (simp add: conflictingBookingsOf_def str_le_refl)
  then have "conflictingBookingsOf st' service' req' \<noteq> []" by auto
  moreover have "validateCreate req' = []"
    "findActiveService st' (cr_serviceId req') = Some service'"
    "p_isAvailable (s_provider service')"
    using a by simp_all
  ultimately show "createBooking st' customer' uuid' req'
                  = (Error 400 ''Time slot is not available'', st')"
    by (simp add: createBooking_cases)
qed


lemma find_example_empty: "findActiveService emptyState 1 = Some exampleService"
  by (simp add: findActiveService_def emptyState_def exampleService_def)

lemma validate_example: "validateCreate exampleRequest = []"
  by (simp add: validateCreate_def exampleRequest_def parseTime_def hourOf_def minuteOf_def
      digitVal_def)

lemma validate_earlier: "validateCreate earlierRequest = []"
  by (simp add: validateCreate_def exampleRequest_def earlierRequest_def parseTime_def
      hourOf_def minuteOf_def digitVal_def)

lemma example_available: "p_isAvailable (s_provider exampleService)"
  by (simp add: exampleService_def exampleProvider_def)

lemma create_first:
  "createBooking emptyState exampleCustomer exampleUuid exampleRequest =
     (Json 201 (''Booking created successfully'', firstBooking),
      afterFirst)"
  apply (subst createBooking_cases [OF validate_example _ example_available])
   apply (simp add: exampleRequest_def find_example_empty)
  apply (simp add: conflictingBookingsOf_def emptyState_def Let_def notify_def getIO_def
      exampleRequest_def exampleService_def exampleProvider_def exampleCustomer_def
      defaultStatus_def notesOrNull_def firstBooking_def afterFirst_def)
  done


lemma find_example_first: "findActiveService afterFirst 1 = Some exampleService"
  by (simp add: findActiveService_def afterFirst_def emptyState_def exampleService_def)

lemma create_second:
  "createBooking afterFirst exampleCustomer secondUuid earlierRequest =
     (Json 201 (''Booking created successfully'', secondBooking), afterSecond)"
  apply (subst createBooking_cases [OF validate_earlier _ example_available])
   apply (simp add: earlierRequest_def exampleRequest_def find_example_first)
  apply (simp add: conflictingBookingsOf_def emptyState_def Let_def notify_def getIO_def
      exampleRequest_def earlierRequest_def exampleService_def exampleProvider_def
      exampleCustomer_def defaultStatus_def notesOrNull_def firstBooking_def afterFirst_def
      secondBooking_def afterSecond_def)
  done

text \<open>
  Claim C2. No two active bookings of one provider on one date overlap in every reachable
  state. The handler does not keep this: from the state without bookings, where the
  invariant holds, a request for 10:00 and then one for 09:30, both for 60 minutes, are
  both answered 201, and the two bookings stored overlap from 10:00 to 10:30.
\<close>

theorem overlapping_bookings_accepted:
  "noOverlap emptyState
   \<and> createBooking emptyState exampleCustomer exampleUuid exampleRequest =
       (Json 201 (''Booking created successfully'', firstBooking), afterFirst)
   \<and> createBooking afterFirst exampleCustomer secondUuid earlierRequest =
       (Json 201 (''Booking created successfully'', secondBooking), afterSecond)
   \<and> bookingTable afterSecond = [firstBooking, secondBooking]
   \<and> bookingsConflict firstBooking secondBooking
   \<and> \<not> noOverlap afterSecond"
proof -
  have c: "bookingsConflict firstBooking secondBooking"
    by (simp add: bookingsConflict_def isActiveBooking_def intervalsOverlap_def
        firstBooking_def secondBooking_def instant_examples addMinutes_def isBefore_def
        isAfter_def)
  have "noOverlap emptyState" by (simp add: noOverlap_def emptyState_def)
  moreover have t: "bookingTable afterSecond = [firstBooking, secondBooking]"
    by (simp add: afterSecond_def)
  moreover have "\<not> noOverlap afterSecond"
    using c by (simp add: noOverlap_def t)
  ultimately show ?thesis using create_first create_second c by simp
qed

theorem conflict_rejection_witness:
  "validateCreate exampleRequest = []
   \<and> findActiveService emptyState (cr_serviceId exampleRequest) = Some exampleService
   \<and> p_isAvailable (s_provider exampleService)
   \<and> fst (createBooking emptyState exampleCustomer exampleUuid exampleRequest)
       \<noteq> Error 400 ''Time slot is not available''
   \<and> createBooking afterFirst exampleCustomer secondUuid exampleRequest
       = (Error 400 ''Time slot is not available'', afterFirst)"
proof -
  have h2: "findActiveService emptyState (cr_serviceId exampleRequest) = Some exampleService"
    by (simp add: exampleRequest_def find_example_empty)
  have h2': "findActiveService afterFirst (cr_serviceId exampleRequest) = Some exampleService"
    by (simp add: exampleRequest_def find_example_first)
  note inst = conflict_rejection [OF validate_example h2 example_available,
      of exampleCustomer exampleUuid]
  from inst have "createBooking emptyState exampleCustomer exampleUuid exampleRequest
       = (Json 201 (''Booking created successfully'', firstBooking), afterFirst)
     \<and> validateCreate exampleRequest = []
     \<and> findActiveService afterFirst (cr_serviceId exampleRequest) = Some exampleService
     \<and> p_isAvailable (s_provider exampleService)
     \<and> p_id (s_provider exampleService) = p_id (s_provider exampleService)
     \<and> cr_scheduledDate exampleRequest = cr_scheduledDate exampleRequest
     \<and> cr_scheduledTime exampleRequest = cr_scheduledTime exampleRequest
     \<longrightarrow> createBooking afterFirst exampleCustomer secondUuid exampleRequest
          = (Error 400 ''Time slot is not available'', afterFirst)"
    by blast
  then have second: "createBooking afterFirst exampleCustomer secondUuid exampleRequest
          = (Error 400 ''Time slot is not available'', afterFirst)"
    using create_first validate_example h2' example_available by simp
  have first: "fst (createBooking emptyState exampleCustomer exampleUuid exampleRequest)
       \<noteq> Error 400 ''Time slot is not available''"
    by (simp add: create_first)
  from validate_example h2 example_available first second show ?thesis by simp
qed

text \<open>
  Claim C8. Whenever POST /bookings persists a booking, the response is 201 with that
  booking; and with the realtime server uninitialised, so that \<^verbatim>\<open>getIO\<close> throws, the
  handler gives the same response and stores the same booking, the failure being
  written to the console.
\<close>

theorem creation_survives_emission_failure:
  assumes "createBooking st customer uuid req = (resp, st')"
    and "bookingTable st' \<noteq> bookingTable st"
  shows "\<exists>booking.
           resp = Json 201 (''Booking created successfully'', booking)
           \<and> bookingTable st' = bookingTable st @ [booking]
           \<and> createBooking (st\<lparr>io := None\<rparr>) customer uuid req
               = (resp, st'\<lparr>io := None,
                    console := console st
                      @ [''Socket notification failed: Socket.io not initialized'']\<rparr>)"
  using assms
  by (auto simp: createBooking_def Let_def notify_def getIO_def findActiveService_def
      conflictingBookingsOf_def split: option.splits if_splits)

theorem creation_survives_emission_failure_witness:
  "createBooking emptyState exampleCustomer exampleUuid exampleRequest
     = (Json 201 (''Booking created successfully'', firstBooking), afterFirst)
   \<and> bookingTable afterFirst \<noteq> bookingTable emptyState
   \<and> io emptyState = None
   \<and> console afterFirst = [''Socket notification failed: Socket.io not initialized'']
   \<and> bookingTable afterFirst = bookingTable emptyState @ [firstBooking]"
proof -
  have h2: "bookingTable afterFirst \<noteq> bookingTable emptyState"
    by (simp add: afterFirst_def emptyState_def)
  from creation_survives_emission_failure [OF create_first h2]
  have "bookingTable afterFirst = bookingTable emptyState @ [firstBooking]" by auto
  with create_first h2 show ?thesis
    by (simp add: afterFirst_def emptyState_def)
qed

section \<open>Booking status transitions\<close>



lemma findOwnedBooking_None:
  "findOwnedBooking st bid uid = None \<longleftrightarrow>
     \<not> (\<exists>b \<in> set (bookingTable st). b_bookingId b = bid \<and> p_userId (b_provider b) = uid)"
  by (auto simp: findOwnedBooking_def find_None_iff)




lemma uuid_ok: "isUUID exampleUuid"
  by (simp add: isUUID_def exampleUuid_def isHexDigit_def)





text \<open>
  Claim C7, amended. A PATCH /bookings/:bookingId/status request that passes the three
  validators of the route (a UUID as \<open>bookingId\<close>, one of the four target statuses, and a
  \<open>cancellationReason\<close> that is absent or a string), from a user for whom no booking has
  both the given \<open>bookingId\<close> and a provider associated with that user, is answered 404
  "Booking not found" and leaves the state as it was.
\<close>

theorem non_owner_gets_not_found:
  assumes "validateStatus req = []"
    and "\<not> (\<exists>b \<in> set (bookingTable st).
              b_bookingId b = sr_bookingId req \<and> p_userId (b_provider b) = u_id usr)"
  shows "updateBookingStatus st usr req = (Error 404 ''Booking not found'', st)"
proof -
  have "findOwnedBooking st (sr_bookingId req) (u_id usr) = None"
    using assms(2) by (simp add: findOwnedBooking_None)
  with assms(1) show ?thesis
    by (simp add: updateBookingStatus_def)
qed

theorem non_owner_gets_not_found_witness:
  "validateStatus cancelRequest = []
   \<and> findOwnedBooking bookedState (sr_bookingId cancelRequest) (u_id exampleCustomer) = None
   \<and> updateBookingStatus bookedState exampleCustomer cancelRequest
       = (Error 404 ''Booking not found'', bookedState)"
proof -
  have v: "validateStatus cancelRequest = []"
    by (simp add: validateStatus_def cancelRequest_def uuid_ok)
  have n: "findOwnedBooking bookedState (sr_bookingId cancelRequest) (u_id exampleCustomer) = None"
    by (simp add: findOwnedBooking_def bookedState_def exampleBooking_def exampleProvider_def
        cancelRequest_def exampleCustomer_def)
  from non_owner_gets_not_found [OF v n [unfolded findOwnedBooking_None]] v n
  show ?thesis by simp
qed

lemma null_reason_is_invalid:
  "updateBookingStatus bookedState exampleCustomer nullReasonRequest
     = (ValidationErrors 400 [''cancellationReason''], bookedState)"
  by (simp add: updateBookingStatus_def validateStatus_def nullReasonRequest_def uuid_ok)

text \<open>
  Claim C7 as stated fails for a request that does not pass validation: for the customer
  of the example booking, who is not its provider's user, and the target status PENDING,
  the answer is 400 with a validation error, not 404.
\<close>

theorem invalid_status_counterexample:
  "findOwnedBooking bookedState (sr_bookingId pendingRequest) (u_id exampleCustomer) = None
   \<and> updateBookingStatus bookedState exampleCustomer pendingRequest
       = (ValidationErrors 400 [''status''], bookedState)
   \<and> fst (updateBookingStatus bookedState exampleCustomer pendingRequest)
       \<noteq> Error 404 ''Booking not found''"
  by (simp add: updateBookingStatus_def validateStatus_def pendingRequest_def uuid_ok
      findOwnedBooking_def bookedState_def exampleBooking_def exampleProvider_def
      exampleCustomer_def)

section \<open>Service search\<close>

lemma set_insertBy: "set (insertBy cmp x ys) = insert x (set ys)"
  by (induction ys) auto

lemma mset_insertBy: "mset (insertBy cmp x ys) = add_mset x (mset ys)"
  by (induction ys) auto

lemma mset_sortBy: "mset (sortBy cmp xs) = mset xs"
  by (induction xs) (simp_all add: sortBy_def mset_insertBy)

lemma sorted_insertBy:
  assumes total: "\<And>a b. isPositive (cmp a b) \<Longrightarrow> \<not> isPositive (cmp b a)"
    and trans: "\<And>a b c. \<not> isPositive (cmp a b) \<Longrightarrow> \<not> isPositive (cmp b c)
                  \<Longrightarrow> \<not> isPositive (cmp a c)"
    and "sorted_wrt (\<lambda>a b. \<not> isPositive (cmp a b)) ys"
  shows "sorted_wrt (\<lambda>a b. \<not> isPositive (cmp a b)) (insertBy cmp x ys)"
  using assms(3)
proof (induction ys)
  case Nil
  then show ?case by simp
next
  case (Cons y ys)
  show ?case
  proof (cases "isPositive (cmp x y)")
    case True
    then have "\<not> isPositive (cmp y x)" by (rule total)
    with True Cons show ?thesis by (auto simp: set_insertBy)
  next
    case False
    then have "\<forall>z \<in> set ys. \<not> isPositive (cmp x z)"
      using Cons.prems trans by auto
    with False Cons.prems show ?thesis by auto
  qed
qed

lemma sorted_sortBy:
  assumes total: "\<And>a b. isPositive (cmp a b) \<Longrightarrow> \<not> isPositive (cmp b a)"
    and trans: "\<And>a b c. \<not> isPositive (cmp a b) \<Longrightarrow> \<not> isPositive (cmp b c)
                  \<Longrightarrow> \<not> isPositive (cmp a c)"
  shows "sorted_wrt (\<lambda>a b. \<not> isPositive (cmp a b)) (sortBy cmp xs)"
proof (induction xs)
  case Nil
  then show ?case by (simp add: sortBy_def)
next
  case (Cons x xs)
  have "sortBy cmp (x # xs) = insertBy cmp x (sortBy cmp xs)" by (simp add: sortBy_def)
  with Cons show ?case using sorted_insertBy [of cmp, OF total trans] by simp
qed

lemma distanceOrInfinity_cases:
  "(\<exists>x. x \<noteq> 0 \<and> distanceOrInfinity d = Num x) \<or> distanceOrInfinity d = PosInfinity"
  by (cases d) (auto simp: distanceOrInfinity_def)

lemma byDistance_total: "isPositive (byDistance a b) \<Longrightarrow> \<not> isPositive (byDistance b a)"
  using distanceOrInfinity_cases [of "ls_distance a"] distanceOrInfinity_cases [of "ls_distance b"]
  by (auto simp: byDistance_def isPositive_def)

lemma byDistance_trans:
  "\<not> isPositive (byDistance a b) \<Longrightarrow> \<not> isPositive (byDistance b c)
     \<Longrightarrow> \<not> isPositive (byDistance a c)"
  using distanceOrInfinity_cases [of "ls_distance a"] distanceOrInfinity_cases [of "ls_distance b"]
    distanceOrInfinity_cases [of "ls_distance c"]
  by (auto simp: byDistance_def isPositive_def)

lemma sorted_byDistance:
  "sorted_wrt (\<lambda>a b. \<not> isPositive (byDistance a b)) (sortBy byDistance xs)"
  by (rule sorted_sortBy [OF byDistance_total byDistance_trans])

lemma searchServices_distance_sorted:
  assumes "searchServices st q = Json 200 result"
    and "q_sortBy q = Some ''distance''"
    and "q_latitude q = Some lat" "q_longitude q = Some lon"
  shows "sorted_wrt (\<lambda>a b. \<not> isPositive (byDistance a b)) (res_services result)"
proof -
  from assms obtain listed where "res_services result = sortBy byDistance listed"
    by (auto simp: searchServices_def Let_def split: if_splits)
  then show ?thesis by (simp add: sorted_byDistance)
qed

text \<open>
  Claim C10. In the answer to a GET /services request with \<open>sortBy=distance\<close> and origin
  coordinates, a service whose computed distance is exactly 0 comes after every service
  with a positive distance: the comparator reads its distance as \<open>Infinity\<close>.
\<close>

theorem zero_distance_sorted_last:
  assumes "searchServices st q = Json 200 result"
    and "q_sortBy q = Some ''distance''"
    and "q_latitude q = Some lat" "q_longitude q = Some lon"
    and "i < length (res_services result)" "j < length (res_services result)"
    and "ls_distance (res_services result ! i) = Number 0"
    and "ls_distance (res_services result ! j) = Number d" "d > 0"
  shows "j < i"
proof (rule ccontr)
  assume "\<not> j < i"
  moreover have "i \<noteq> j" using assms(7,8,9) by auto
  ultimately have "i < j" by simp
  with searchServices_distance_sorted [OF assms(1,2,3,4)] assms(6)
  have "\<not> isPositive (byDistance (res_services result ! i) (res_services result ! j))"
    by (simp add: sorted_wrt_iff_nth_less)
  then show False
    using assms(7,8,9) by (simp add: byDistance_def distanceOrInfinity_def isPositive_def)
qed


lemma distance_same_point: "calculateDistance lat lon lat lon = 0"
  by (simp add: calculateDistance_def atan2_def)

lemma distance_pole_to_pole: "calculateDistance 90 20 (- 90) 20 = 6371 * pi"
  by (simp add: calculateDistance_def atan2_def Let_def)

lemma validate_located:
  "validateSearch locatedQuery = []" "validateSearch nearbyQuery = []"
  "validateSearch byDistanceQuery = []"
  by (simp_all add: validateSearch_def checkField_def locatedQuery_def nearbyQuery_def
      byDistanceQuery_def)

lemma matches_examples:
  "matchesWhere locatedQuery exampleService" "matchesWhere locatedQuery farService"
  "matchesWhere locatedQuery equatorService"
  "matchesWhere nearbyQuery exampleService" "matchesWhere nearbyQuery equatorService"
  "matchesWhere byDistanceQuery exampleService" "matchesWhere byDistanceQuery farService"
  by (simp_all add: matchesWhere_def locatedQuery_def nearbyQuery_def byDistanceQuery_def
      exampleService_def exampleProvider_def farService_def equatorService_def)

lemma attach_examples:
  "attachDistance 90 20 exampleService = \<lparr>ls_service = exampleService, ls_distance = Number 0\<rparr>"
  "attachDistance 90 20 farService = \<lparr>ls_service = farService, ls_distance = Number (6371 * pi)\<rparr>"
  "attachDistance 90 20 equatorService = \<lparr>ls_service = equatorService, ls_distance = Null\<rparr>"
    apply (simp add: attachDistance_def truthy_def exampleService_def exampleProvider_def
      exampleProviderUser_def distance_same_point)
   apply (simp add: attachDistance_def truthy_def farService_def distance_pole_to_pole)
  apply (simp add: attachDistance_def truthy_def equatorService_def)
  done

lemma ceiling_tenth: "\<lceil>(1::real) / 10\<rceil> = 1"
  by (rule ceiling_unique) simp_all

lemma search_by_distance:
  "searchServices farState byDistanceQuery =
     Json 200
       \<lparr>res_services =
          [\<lparr>ls_service = farService, ls_distance = Number (6371 * pi)\<rparr>,
           \<lparr>ls_service = exampleService, ls_distance = Number 0\<rparr>],
        res_pagination =
          \<lparr>currentPage = 1, totalPages = 1, totalCount = 2, hasNext = False, hasPrev = False\<rparr>\<rparr>"
  apply (simp add: searchServices_def validate_located Let_def findManyServices_def
      countServices_def farState_def emptyState_def matches_examples)
  apply (simp add: byDistanceQuery_def locatedQuery_def attach_examples sortBy_def
      byDistance_def distanceOrInfinity_def isPositive_def ceiling_tenth)
  done

theorem zero_distance_sorted_last_witness:
  "searchServices farState byDistanceQuery =
     Json 200
       \<lparr>res_services =
          [\<lparr>ls_service = farService, ls_distance = Number (6371 * pi)\<rparr>,
           \<lparr>ls_service = exampleService, ls_distance = Number 0\<rparr>],
        res_pagination =
          \<lparr>currentPage = 1, totalPages = 1, totalCount = 2, hasNext = False, hasPrev = False\<rparr>\<rparr>
   \<and> q_sortBy byDistanceQuery = Some ''distance''
   \<and> q_latitude byDistanceQuery = Some 90 \<and> q_longitude byDistanceQuery = Some 20
   \<and> 6371 * pi > 0
   \<and> (0::nat) < 1"
proof -
  let ?result = "\<lparr>res_services =
          [\<lparr>ls_service = farService, ls_distance = Number (6371 * pi)\<rparr>,
           \<lparr>ls_service = exampleService, ls_distance = Number 0\<rparr>],
        res_pagination =
          \<lparr>currentPage = 1, totalPages = 1, totalCount = 2, hasNext = False, hasPrev = False\<rparr>\<rparr>"
  have q: "q_sortBy byDistanceQuery = Some ''distance''"
    "q_latitude byDistanceQuery = Some 90" "q_longitude byDistanceQuery = Some 20"
    by (simp_all add: byDistanceQuery_def locatedQuery_def)
  have pos: "6371 * pi > 0" by simp
  have "(0::nat) < 1"
    by (rule zero_distance_sorted_last [OF search_by_distance q, of 1 0 "6371 * pi"])
       (simp_all)
  with search_by_distance q pos show ?thesis by simp
qed


lemma searchServices_shape:
  assumes "searchServices st q = Json 200 result"
    and "q_latitude q = Some lat" "q_longitude q = Some lon"
    and "page = (case q_page q of None \<Rightarrow> 1 | Some n \<Rightarrow> n)"
    and "limit = (case q_limit q of None \<Rightarrow> 20 | Some n \<Rightarrow> n)"
    and "filtered = (case q_maxDistance q of
                       None \<Rightarrow> findManyServices st q ((page - 1) * limit) limit
                     | Some maxDistance \<Rightarrow>
                         filter (withinDistance lat lon maxDistance)
                           (findManyServices st q ((page - 1) * limit) limit))"
  shows "mset (res_services result) = mset (map (attachDistance lat lon) filtered)"
    and "res_pagination result =
           \<lparr>currentPage = page,
            totalPages = \<lceil>real (countServices st q) / real_of_int limit\<rceil>,
            totalCount = countServices st q,
            hasNext = ((page - 1) * limit + limit < int (countServices st q)),
            hasPrev = (page > 1)\<rparr>"
  using assms
  by (auto simp: searchServices_def Let_def mset_sortBy split: if_splits option.splits)

lemma attachDistance_service: "ls_service (attachDistance lat lon s) = s"
  by (simp add: attachDistance_def Let_def)

lemma attachDistance_falsy:
  "\<not> truthy (u_latitude (p_user (s_provider s))) \<or> \<not> truthy (u_longitude (p_user (s_provider s)))
     \<Longrightarrow> ls_distance (attachDistance lat lon s) = Null"
  by (auto simp: attachDistance_def Let_def)

lemma withinDistance_truthy:
  "withinDistance lat lon maxDistance s \<Longrightarrow>
     truthy (u_latitude (p_user (s_provider s))) \<and> truthy (u_longitude (p_user (s_provider s)))"
  by (auto simp: withinDistance_def Let_def split: if_splits)

lemma truthy_iff: "truthy v \<longleftrightarrow> v \<noteq> None \<and> v \<noteq> Some 0"
  by (cases v) (auto simp: truthy_def)

text \<open>
  Claim C9. In a GET /services request with latitude and longitude, a service whose
  provider's stored latitude or longitude is exactly 0 is treated as one whose coordinate
  is missing: when \<open>maxDistance\<close> is supplied too it is not among the services returned,
  and wherever it is returned its attached distance is \<open>null\<close>.
\<close>

theorem zero_coordinate_as_missing:
  assumes "searchServices st q = Json 200 result"
    and "q_latitude q = Some lat" "q_longitude q = Some lon"
    and "u_latitude (p_user (s_provider s)) \<in> {Some 0, None}
         \<or> u_longitude (p_user (s_provider s)) \<in> {Some 0, None}"
  shows "(q_maxDistance q \<noteq> None \<longrightarrow> s \<notin> ls_service ` set (res_services result))
         \<and> (\<forall>ls \<in> set (res_services result). ls_service ls = s \<longrightarrow> ls_distance ls = Null)"
proof -
  define page where "page = (case q_page q of None \<Rightarrow> 1 | Some n \<Rightarrow> n)"
  define limit where "limit = (case q_limit q of None \<Rightarrow> 20 | Some n \<Rightarrow> n)"
  define found where "found = findManyServices st q ((page - 1) * limit) limit"
  define filtered where "filtered =
    (case q_maxDistance q of
       None \<Rightarrow> found
     | Some maxDistance \<Rightarrow> filter (withinDistance lat lon maxDistance) found)"
  have "mset (res_services result) = mset (map (attachDistance lat lon) filtered)"
    by (rule searchServices_shape(1) [OF assms(1,2,3) page_def limit_def])
       (simp add: filtered_def found_def cong: option.case_cong)
  then have listed: "set (res_services result) = attachDistance lat lon ` set filtered"
    using mset_eq_setD by fastforce
  have falsy: "\<not> truthy (u_latitude (p_user (s_provider s)))
               \<or> \<not> truthy (u_longitude (p_user (s_provider s)))"
    using assms(4) by (auto simp: truthy_iff)
  have "s \<notin> ls_service ` set (res_services result)" if "q_maxDistance q \<noteq> None"
  proof
    assume "s \<in> ls_service ` set (res_services result)"
    then have "s \<in> set filtered"
      by (auto simp: listed attachDistance_service)
    moreover from that obtain maxDistance where "q_maxDistance q = Some maxDistance" by auto
    ultimately have "withinDistance lat lon maxDistance s" by (simp add: filtered_def)
    with falsy show False using withinDistance_truthy by blast
  qed
  moreover have "ls_distance ls = Null"
    if "ls \<in> set (res_services result)" "ls_service ls = s" for ls
  proof -
    from that(1) obtain s' where "ls = attachDistance lat lon s'" by (auto simp: listed)
    with that(2) have "ls = attachDistance lat lon s" by (simp add: attachDistance_service)
    then show ?thesis by (simp add: attachDistance_falsy [OF falsy])
  qed
  ultimately show ?thesis by blast
qed

text \<open>
  Claim C4. In a GET /services request with origin coordinates and \<open>maxDistance\<close>, the
  services returned are those of the page (the rows matching the where clause, after
  \<open>skip\<close> and \<open>take\<close>) that pass the distance filter, while \<open>totalCount\<close> and
  \<open>totalPages\<close> count all rows matching the where clause; so the array is shorter than
  the page as soon as one row of the page fails the distance filter.
\<close>

theorem pagination_before_distance_filter:
  assumes "searchServices st q = Json 200 result"
    and "q_latitude q = Some lat" "q_longitude q = Some lon"
    and "q_maxDistance q = Some maxDistance"
    and "page = (case q_page q of None \<Rightarrow> 1 | Some n \<Rightarrow> n)"
    and "limit = (case q_limit q of None \<Rightarrow> 20 | Some n \<Rightarrow> n)"
    and "matching = filter (matchesWhere q) (serviceTable st)"
    and "candidates = take (nat limit) (drop (nat ((page - 1) * limit)) matching)"
  shows "mset (map ls_service (res_services result))
           = mset (filter (withinDistance lat lon maxDistance) candidates)
         \<and> totalCount (res_pagination result) = length matching
         \<and> totalPages (res_pagination result) = \<lceil>real (length matching) / real_of_int limit\<rceil>
         \<and> length (res_services result) \<le> length candidates
         \<and> (length (res_services result) < length candidates
              \<longleftrightarrow> (\<exists>s \<in> set candidates. \<not> withinDistance lat lon maxDistance s))"
proof -
  have cand: "candidates = findManyServices st q ((page - 1) * limit) limit"
    by (simp add: assms(7,8) findManyServices_def)
  have m: "mset (res_services result)
             = mset (map (attachDistance lat lon)
                      (filter (withinDistance lat lon maxDistance) candidates))"
    by (rule searchServices_shape(1) [OF assms(1,2,3,5,6)]) (simp add: assms(4) cand)
  have p: "res_pagination result =
           \<lparr>currentPage = page,
            totalPages = \<lceil>real (countServices st q) / real_of_int limit\<rceil>,
            totalCount = countServices st q,
            hasNext = ((page - 1) * limit + limit < int (countServices st q)),
            hasPrev = (page > 1)\<rparr>"
    by (rule searchServices_shape(2) [OF assms(1,2,3,5,6) refl])
  have "mset (map ls_service (res_services result))
          = image_mset ls_service (mset (res_services result))" by simp
  also have "\<dots> = mset (map ls_service (map (attachDistance lat lon)
                      (filter (withinDistance lat lon maxDistance) candidates)))"
    by (simp only: m mset_map)
  also have "\<dots> = mset (filter (withinDistance lat lon maxDistance) candidates)"
    by (simp add: comp_def attachDistance_service)
  finally have services: "mset (map ls_service (res_services result))
           = mset (filter (withinDistance lat lon maxDistance) candidates)" .
  have len: "length (res_services result)
               = length (filter (withinDistance lat lon maxDistance) candidates)"
    using m by (metis length_map size_mset)
  have strict: "length (filter (withinDistance lat lon maxDistance) candidates) < length candidates
          \<longleftrightarrow> (\<exists>s \<in> set candidates. \<not> withinDistance lat lon maxDistance s)"
    by (metis length_filter_less filter_True linorder_not_less length_filter_le
        filter_id_conv)
  show ?thesis
    using services p len strict
    by (simp add: countServices_def assms(7))
qed


lemma within_examples:
  "withinDistance 90 20 100 exampleService" "\<not> withinDistance 90 20 100 equatorService"
   apply (simp add: withinDistance_def truthy_def exampleService_def exampleProvider_def
      exampleProviderUser_def distance_same_point)
  apply (simp add: withinDistance_def truthy_def equatorService_def)
  done

lemma search_located:
  "searchServices equatorState locatedQuery =
     Json 200
       \<lparr>res_services =
          [\<lparr>ls_service = equatorService, ls_distance = Null\<rparr>,
           \<lparr>ls_service = exampleService, ls_distance = Number 0\<rparr>],
        res_pagination =
          \<lparr>currentPage = 1, totalPages = 1, totalCount = 2, hasNext = False, hasPrev = False\<rparr>\<rparr>"
  apply (simp add: searchServices_def validate_located Let_def findManyServices_def
      countServices_def equatorState_def emptyState_def matches_examples)
  apply (simp add: locatedQuery_def attach_examples sortBy_def ceiling_tenth)
  apply (simp add: byNewest_def isPositive_def exampleService_def equatorService_def)
  done

lemma search_nearby:
  "searchServices equatorState nearbyQuery =
     Json 200
       \<lparr>res_services = [\<lparr>ls_service = exampleService, ls_distance = Number 0\<rparr>],
        res_pagination =
          \<lparr>currentPage = 1, totalPages = 1, totalCount = 2, hasNext = False, hasPrev = False\<rparr>\<rparr>"
  apply (simp add: searchServices_def validate_located Let_def findManyServices_def
      countServices_def equatorState_def emptyState_def matches_examples)
  apply (simp add: nearbyQuery_def locatedQuery_def within_examples attach_examples sortBy_def
      ceiling_tenth)
  done

lemma nearby_fields:
  "q_latitude nearbyQuery = Some 90" "q_longitude nearbyQuery = Some 20"
  "q_maxDistance nearbyQuery = Some 100" "q_page nearbyQuery = None" "q_limit nearbyQuery = None"
  by (simp_all add: nearbyQuery_def locatedQuery_def)

lemma located_fields:
  "q_latitude locatedQuery = Some 90" "q_longitude locatedQuery = Some 20"
  "q_maxDistance locatedQuery = None"
  by (simp_all add: locatedQuery_def)

lemma equator_latitude: "u_latitude (p_user (s_provider equatorService)) = Some 0"
  by (simp add: equatorService_def)

theorem zero_coordinate_as_missing_witness:
  "searchServices equatorState nearbyQuery =
     Json 200
       \<lparr>res_services = [\<lparr>ls_service = exampleService, ls_distance = Number 0\<rparr>],
        res_pagination =
          \<lparr>currentPage = 1, totalPages = 1, totalCount = 2, hasNext = False, hasPrev = False\<rparr>\<rparr>
   \<and> q_latitude nearbyQuery = Some 90 \<and> q_longitude nearbyQuery = Some 20
   \<and> q_maxDistance nearbyQuery = Some 100
   \<and> u_latitude (p_user (s_provider equatorService)) = Some 0
   \<and> matchesWhere nearbyQuery equatorService
   \<and> equatorService \<noteq> exampleService
   \<and> searchServices equatorState locatedQuery =
     Json 200
       \<lparr>res_services =
          [\<lparr>ls_service = equatorService, ls_distance = Null\<rparr>,
           \<lparr>ls_service = exampleService, ls_distance = Number 0\<rparr>],
        res_pagination =
          \<lparr>currentPage = 1, totalPages = 1, totalCount = 2, hasNext = False, hasPrev = False\<rparr>\<rparr>
   \<and> q_latitude locatedQuery = Some 90 \<and> q_longitude locatedQuery = Some 20
   \<and> q_maxDistance locatedQuery = None"
proof -
  have z: "u_latitude (p_user (s_provider equatorService)) \<in> {Some 0, None}
         \<or> u_longitude (p_user (s_provider equatorService)) \<in> {Some 0, None}"
    by (simp add: equator_latitude)
  from zero_coordinate_as_missing [OF search_nearby nearby_fields(1,2) z]
  have "equatorService \<noteq> exampleService" by (simp add: nearby_fields)
  moreover from zero_coordinate_as_missing [OF search_located located_fields(1,2) z]
  have "ls_distance \<lparr>ls_service = equatorService, ls_distance = Null\<rparr> = Null" by simp
  ultimately show ?thesis
    using search_nearby search_located nearby_fields located_fields equator_latitude
      matches_examples
    by simp
qed

theorem pagination_before_distance_filter_witness:
  "searchServices equatorState nearbyQuery =
     Json 200
       \<lparr>res_services = [\<lparr>ls_service = exampleService, ls_distance = Number 0\<rparr>],
        res_pagination =
          \<lparr>currentPage = 1, totalPages = 1, totalCount = 2, hasNext = False, hasPrev = False\<rparr>\<rparr>
   \<and> q_latitude nearbyQuery = Some 90 \<and> q_longitude nearbyQuery = Some 20
   \<and> q_maxDistance nearbyQuery = Some 100
   \<and> q_page nearbyQuery = None \<and> q_limit nearbyQuery = None
   \<and> filter (matchesWhere nearbyQuery) (serviceTable equatorState)
       = [exampleService, equatorService]
   \<and> take (nat 20) (drop (nat ((1 - 1) * 20)) [exampleService, equatorService])
       = [exampleService, equatorService]
   \<and> length [\<lparr>ls_service = exampleService, ls_distance = Number 0\<rparr>]
       < length [exampleService, equatorService]"
proof -
  let ?result = "\<lparr>res_services = [\<lparr>ls_service = exampleService, ls_distance = Number 0\<rparr>],
        res_pagination =
          \<lparr>currentPage = 1, totalPages = 1, totalCount = 2, hasNext = False, hasPrev = False\<rparr>\<rparr>"
  have p: "(1::int) = (case q_page nearbyQuery of None \<Rightarrow> 1 | Some n \<Rightarrow> n)"
    and l: "(20::int) = (case q_limit nearbyQuery of None \<Rightarrow> 20 | Some n \<Rightarrow> n)"
    by (simp_all add: nearby_fields)
  have m: "[exampleService, equatorService]
             = filter (matchesWhere nearbyQuery) (serviceTable equatorState)"
    by (simp add: equatorState_def emptyState_def matches_examples)
  have c: "[exampleService, equatorService]
             = take (nat 20) (drop (nat ((1 - 1) * 20)) [exampleService, equatorService])"
    by simp
  have ex: "\<exists>s \<in> set [exampleService, equatorService]. \<not> withinDistance 90 20 100 s"
    by (simp add: within_examples)
  from pagination_before_distance_filter [OF search_nearby nearby_fields(1,2,3) p l m c] ex
  have "length (res_services ?result) < length [exampleService, equatorService]"
    by blast
  then show ?thesis
    using search_nearby nearby_fields m [symmetric] by simp
qed

end
